theory Spec2Isabelle
  imports Complex_Main "HOL-Library.Sublist"
begin

section \<open>Conventions of the embedding\<close>

text \<open>
  The evaluation harness works on JSON-like dictionaries. A dictionary with a known set
  of keys is a record whose fields are options: \<open>None\<close> is a key that is absent, so that
  the source's idiom \<^verbatim>\<open>d.get(k, default) or default\<close> is a case distinction on the
  field. Where the source reads a key in this way, a key that holds \<^verbatim>\<open>null\<close> behaves
  as an absent one; where it does not, a \<^verbatim>\<open>null\<close> is outside these records (the
  section on effects takes it up for the response of the SUT). Values are of the types the
  specification gives them. Python's unbounded integers are \<open>int\<close>. Python's
  floats are modelled by exact rationals (\<open>rat\<close>): every float the scoring code produces
  is a quotient of two integers or a sum of such quotients, and rounding is left out.
  A line range is a pair \<open>(start, end)\<close> of integers.
\<close>

type_synonym range = "int \<times> int"

definition get_or :: "'a option \<Rightarrow> 'a \<Rightarrow> 'a" where
  "get_or v d = (case v of None \<Rightarrow> d | Some x \<Rightarrow> x)"

text \<open>Python's \<^verbatim>\<open>sub in s\<close> on strings: \<open>sub\<close> occurs in \<open>s\<close> as a contiguous block.\<close>

definition py_in :: "string \<Rightarrow> string \<Rightarrow> bool" where
  "py_in sub s = sublist sub s"

section \<open>Metrics engine: \<^verbatim>\<open>eval/metrics/localization.py\<close>\<close>

text \<open>\<^verbatim>\<open>_iou(a, b)\<close>: the division is Python's true division of two integers.\<close>

fun iou :: "range \<Rightarrow> range \<Rightarrow> rat" where
  "iou (a_s, a_e) (b_s, b_e) =
     (let inter = max 0 (min a_e b_e - max a_s b_s);
          union = max (a_e - a_s) 0 + max (b_e - b_s) 0 - inter
      in if union > 0 then of_int inter / of_int union else 0)"

text \<open>The two lengths as the specification words them, for comparison with \<open>iou\<close>.\<close>

definition intersection_length :: "range \<Rightarrow> range \<Rightarrow> int" where
  "intersection_length a b = max 0 (min (snd a) (snd b) - max (fst a) (fst b))"

definition union_length :: "range \<Rightarrow> range \<Rightarrow> int" where
  "union_length a b =
     max (snd a - fst a) 0 + max (snd b - fst b) 0 - intersection_length a b"

definition path_match_all_only :: "string list \<Rightarrow> string list \<Rightarrow> int" where
  "path_match_all_only pred_paths golden_paths =
     (if set pred_paths = set golden_paths then 1 else 0)"

text \<open>
  The dictionary \<^verbatim>\<open>{"per_pair": ..., "avg": ..., "min": ...}\<close> returned by
  \<^verbatim>\<open>line_iou_scores\<close>; the field \<open>mn\<close> is its key \<^verbatim>\<open>min\<close>.
\<close>

record iou_scores =
  per_pair :: "rat list"
  avg :: rat
  mn :: rat

text \<open>The inner loop: \<^verbatim>\<open>best = 0.0; for g in golden: best = max(best, _iou(p, g))\<close>.\<close>

definition best_iou :: "range \<Rightarrow> range list \<Rightarrow> rat" where
  "best_iou p golden_line_ranges = fold (\<lambda>g best. max best (iou p g)) golden_line_ranges 0"

text \<open>Python's \<^verbatim>\<open>min(xs)\<close> on a list; it raises on the empty list, which the caller excludes.\<close>

fun py_min :: "rat list \<Rightarrow> rat option" where
  "py_min [] = None"
| "py_min (x # xs) = Some (fold min xs x)"

definition line_iou_scores :: "range list \<Rightarrow> range list \<Rightarrow> iou_scores" where
  "line_iou_scores pred_line_ranges golden_line_ranges =
     (if pred_line_ranges = [] \<or> golden_line_ranges = []
      then \<lparr>per_pair = [], avg = 0, mn = 0\<rparr>
      else
        let pairs = map (\<lambda>p. best_iou p golden_line_ranges) pred_line_ranges
        in \<lparr>per_pair = pairs,
            avg = (if pairs \<noteq> [] then sum_list pairs / of_nat (length pairs) else 0),
            mn = (if pairs \<noteq> [] then get_or (py_min pairs) 0 else 0)\<rparr>)"

text \<open>
  The answer of a prediction, a citation, and the \<^verbatim>\<open>inputs\<close> of a task. Only the keys
  the scoring code reads are fields.
\<close>

record answer =
  ans_paths :: "string list option"
  ans_line_ranges :: "range list option"
  ans_quotes :: "string list option"
  ans_rationale :: "string option"

record citation =
  cit_path :: "string option"
  cit_start :: "int option"
  cit_end :: "int option"

record task_inputs =
  inp_symbol :: "string option"

text \<open>The empty dictionary \<^verbatim>\<open>{}\<close> at each of these types.\<close>

definition empty_answer :: answer where
  "empty_answer = \<lparr>ans_paths = None, ans_line_ranges = None, ans_quotes = None, ans_rationale = None\<rparr>"

definition empty_inputs :: task_inputs where
  "empty_inputs = \<lparr>inp_symbol = None\<rparr>"

text \<open>
  \<^verbatim>\<open>symbol_presence\<close>. The symbol is compiled by \<^verbatim>\<open>_symbol_regex\<close> with Python's
  \<^verbatim>\<open>re\<close> library (as a regular expression, or escaped when it is not one) and searched
  in each quote. The library is outside the repository: \<open>re_search symbol q\<close> stands for
  \<^verbatim>\<open>_symbol_regex(symbol).search(q)\<close> finding a match.
\<close>

record symbol_result =
  sym_symbol_match :: int
  sym_symbol_presence_rate :: rat

definition symbol_presence ::
  "(string \<Rightarrow> string \<Rightarrow> bool) \<Rightarrow> string list \<Rightarrow> string list \<Rightarrow> task_inputs \<Rightarrow> symbol_result" where
  "symbol_presence re_search pred_paths quotes inputs =
     (case inp_symbol inputs of
        None \<Rightarrow> \<lparr>sym_symbol_match = 1, sym_symbol_presence_rate = 1\<rparr>
      | Some symbol \<Rightarrow>
          if symbol = [] then \<lparr>sym_symbol_match = 1, sym_symbol_presence_rate = 1\<rparr>
          else if pred_paths = [] then \<lparr>sym_symbol_match = 0, sym_symbol_presence_rate = 0\<rparr>
          else
            let present_any = list_ex (\<lambda>q. re_search symbol q) quotes;
                rate = (if present_any then 1 else 0 :: rat)
            in \<lparr>sym_symbol_match = (if rate = 1 then 1 else 0), sym_symbol_presence_rate = rate\<rparr>)"

text \<open>The dictionary returned by \<^verbatim>\<open>evaluate_localization\<close>.\<close>

record localization =
  loc_path_match :: int
  loc_line_iou_avg :: rat
  loc_line_iou_min :: rat
  loc_symbol_match :: int
  loc_symbol_presence_rate :: rat

text \<open>
  The golden answer of a task, keyed by \<^verbatim>\<open>task_id\<close>. The fields cover the keys read by
  the localization workflow, the change-impact workflow and the variant generator.
\<close>

record anchor =
  anc_path :: "string option"
  anc_symbol :: "string option"

record example_quote =
  exq_path :: "string option"
  exq_start :: "int option"
  exq_end :: "int option"

record provenance =
  prov_from_task :: "string option"
  prov_method :: "string option"
  prov_repo :: "string option"
  prov_commit :: "string option"

record golden =
  g_task_id :: "string option"
  g_symbol :: "string option"
  g_paths :: "string list option"
  g_line_ranges :: "range list option"
  g_quotes :: "string list option"
  g_checklist :: "string list option"
  g_required_anchors :: "anchor list option"
  g_example_quotes :: "example_quote list option"
  g_forbidden_claims :: "string list option"
  g_provenance :: "provenance option"
  g_notes :: "string option"

definition empty_golden :: golden where
  "empty_golden = \<lparr>g_task_id = None, g_symbol = None, g_paths = None, g_line_ranges = None,
     g_quotes = None, g_checklist = None, g_required_anchors = None, g_example_quotes = None,
     g_forbidden_claims = None, g_provenance = None, g_notes = None\<rparr>"

definition evaluate_localization ::
  "(string \<Rightarrow> string \<Rightarrow> bool) \<Rightarrow> answer \<Rightarrow> golden \<Rightarrow> task_inputs \<Rightarrow> localization" where
  "evaluate_localization re_search pred_answer gold inputs =
     (let pred_paths = get_or (ans_paths pred_answer) [];
          pred_ranges = get_or (ans_line_ranges pred_answer) [];
          gold_paths = get_or (g_paths gold) [];
          gold_ranges = get_or (g_line_ranges gold) [];
          pm = path_match_all_only pred_paths gold_paths;
          ious = line_iou_scores pred_ranges gold_ranges;
          sym = symbol_presence re_search pred_paths (get_or (ans_quotes pred_answer) []) inputs
      in \<lparr>loc_path_match = pm,
          loc_line_iou_avg = avg ious,
          loc_line_iou_min = mn ious,
          loc_symbol_match = sym_symbol_match sym,
          loc_symbol_presence_rate = sym_symbol_presence_rate sym\<rparr>)"

section \<open>Metrics engine: \<^verbatim>\<open>eval/metrics/faithfulness.py\<close>\<close>

definition REASON_OK :: string where "REASON_OK = ''ok''"
definition REASON_CITE_MISSING :: string where "REASON_CITE_MISSING = ''cite_missing''"
definition REASON_CITE_IRRELEVANT :: string where "REASON_CITE_IRRELEVANT = ''cite_irrelevant''"
definition REASON_NO_QUOTES :: string where "REASON_NO_QUOTES = ''no_quotes''"

record faith_result =
  faithful :: int
  faithfulness_reason :: string

text \<open>
  \<^verbatim>\<open>c_paths = {c.get("path") for c in citations if c.get("path")}\<close>: a citation whose
  path is absent or the empty string contributes nothing.
\<close>

definition c_paths :: "citation list \<Rightarrow> string set" where
  "c_paths citations =
     set (concat (map (\<lambda>c. case cit_path c of None \<Rightarrow> [] | Some p \<Rightarrow> if p = [] then [] else [p])
       citations))"

definition evaluate_faithfulness :: "answer \<Rightarrow> citation list \<Rightarrow> faith_result" where
  "evaluate_faithfulness ans citations =
     (let paths = get_or (ans_paths ans) [];
          quotes = get_or (ans_quotes ans) []
      in if citations = [] then \<lparr>faithful = 0, faithfulness_reason = REASON_CITE_MISSING\<rparr>
         else if paths \<noteq> [] \<and> set paths \<inter> c_paths citations = {}
           then \<lparr>faithful = 0, faithfulness_reason = REASON_CITE_IRRELEVANT\<rparr>
         else if quotes = [] then \<lparr>faithful = 0, faithfulness_reason = REASON_NO_QUOTES\<rparr>
         else \<lparr>faithful = 1, faithfulness_reason = REASON_OK\<rparr>)"

section \<open>The prediction of the SUT and the task\<close>

record timing =
  tm_latency_ms :: "int option"

record tokens =
  tok_in :: "int option"
  tok_out :: "int option"
  tok_context :: "int option"

text \<open>
  The response dictionary of the SUT: \<^verbatim>\<open>error\<close> and \<^verbatim>\<open>raw\<close> are the keys that
  \<^verbatim>\<open>call_sut\<close> itself writes.
\<close>

record prediction =
  pred_error :: "string option"
  pred_raw :: "string option"
  pred_answer :: "answer option"
  pred_citations :: "citation list option"
  pred_timing :: "timing option"
  pred_tokens :: "tokens option"

definition empty_timing :: timing where
  "empty_timing = \<lparr>tm_latency_ms = None\<rparr>"

definition empty_tokens :: tokens where
  "empty_tokens = \<lparr>tok_in = None, tok_out = None, tok_context = None\<rparr>"

definition empty_prediction :: prediction where
  "empty_prediction = \<lparr>pred_error = None, pred_raw = None, pred_answer = None,
     pred_citations = None, pred_timing = None, pred_tokens = None\<rparr>"

record constraints =
  must_cite :: bool
  exclude_dirs :: "string list"

record acceptance_criteria =
  acc_paths :: "string list"
  acc_line_ranges :: "range list"
  acc_checklist :: "string list"

record task =
  t_id :: "string option"
  t_workflow :: "string option"
  t_inputs :: "task_inputs option"
  t_constraints :: "constraints option"
  t_acceptance_criteria :: "acceptance_criteria option"
  t_tags :: "string list option"

section \<open>Taxonomy classifier: \<^verbatim>\<open>eval/metrics/taxonomy.py\<close>\<close>

definition LABEL_WRONG_PATH :: string where "LABEL_WRONG_PATH = ''wrong_path''"
definition LABEL_MISSING_PATH :: string where "LABEL_MISSING_PATH = ''missing_path''"
definition LABEL_WRONG_LINE :: string where "LABEL_WRONG_LINE = ''wrong_line''"
definition LABEL_SYMBOL_ABSENT :: string where "LABEL_SYMBOL_ABSENT = ''symbol_absent''"
definition LABEL_CITE_MISSING :: string where "LABEL_CITE_MISSING = ''cite_missing''"
definition LABEL_CITE_IRRELEVANT :: string where "LABEL_CITE_IRRELEVANT = ''cite_irrelevant''"
definition LABEL_VENDOR_HIT :: string where "LABEL_VENDOR_HIT = ''vendor_hit''"
definition LABEL_TEST_INSTEAD_OF_SRC :: string where "LABEL_TEST_INSTEAD_OF_SRC = ''test_instead_of_src''"
definition LABEL_LATENCY_SLO :: string where "LABEL_LATENCY_SLO = ''latency_slo''"
definition LABEL_COST_SLO :: string where "LABEL_COST_SLO = ''cost_slo''"
definition LABEL_ANCHORS_MISSING :: string where "LABEL_ANCHORS_MISSING = ''anchors_missing''"
definition LABEL_ANCHORS_UNFAITHFUL :: string where "LABEL_ANCHORS_UNFAITHFUL = ''anchors_unfaithful''"
definition LABEL_FORBIDDEN_CLAIM :: string where "LABEL_FORBIDDEN_CLAIM = ''forbidden_claim''"
definition LABEL_OK :: string where "LABEL_OK = ''ok''"

text \<open>
  \<^verbatim>\<open>map_labels\<close> reads its dictionary arguments with \<^verbatim>\<open>.get(key, default)\<close>, so
  they are records of optional keys here: the localization result (the two keys it reads),
  the faithfulness result, and the thresholds. Numbers in the thresholds are rationals,
  the integer caps included.
\<close>

record localization_dict =
  d_line_iou_min :: "rat option"
  d_symbol_match :: "int option"

record faithfulness_dict =
  d_faithfulness_reason :: "string option"

record thresholds_dict =
  d_thr_line_iou_min :: "rat option"
  d_p95_latency_ms :: "rat option"
  d_max_tokens_in :: "rat option"
  d_max_tokens_out :: "rat option"
  d_max_context_tokens :: "rat option"

text \<open>Truth value of a thresholds dictionary: it has a key.\<close>

definition thresholds_nonempty :: "thresholds_dict \<Rightarrow> bool" where
  "thresholds_nonempty t =
     (d_thr_line_iou_min t \<noteq> None \<or> d_p95_latency_ms t \<noteq> None \<or> d_max_tokens_in t \<noteq> None \<or>
      d_max_tokens_out t \<noteq> None \<or> d_max_context_tokens t \<noteq> None)"

record labels =
  primary :: string
  secondary :: "string list"

text \<open>
  The two SLO checks shared by \<^verbatim>\<open>map_labels\<close> and \<^verbatim>\<open>map_w2_labels\<close>
  (the source repeats the same lines in both).
\<close>

definition slo_labels :: "prediction \<Rightarrow> thresholds_dict \<Rightarrow> string list" where
  "slo_labels pred thresholds =
     (let lat = get_or (tm_latency_ms (get_or (pred_timing pred) empty_timing)) 0;
          tok = get_or (pred_tokens pred) empty_tokens
      in (if thresholds_nonempty thresholds \<and> lat \<noteq> 0 \<and>
             of_int lat > get_or (d_p95_latency_ms thresholds) 1000000000
          then [LABEL_LATENCY_SLO] else [])
       @ (if of_int (get_or (tok_in tok) 0) > get_or (d_max_tokens_in thresholds) 1000000000 \<or>
             of_int (get_or (tok_out tok) 0) > get_or (d_max_tokens_out thresholds) 1000000000 \<or>
             of_int (get_or (tok_context tok) 0) > get_or (d_max_context_tokens thresholds) 1000000000
          then [LABEL_COST_SLO] else []))"

text \<open>
  \<^verbatim>\<open>primary\<close> starts as \<^verbatim>\<open>None\<close>; \<^verbatim>\<open>primary = primary or L\<close> keeps a label that is
  already set (every label is a non-empty string).
\<close>

definition map_labels ::
  "prediction \<Rightarrow> golden \<Rightarrow> localization_dict \<Rightarrow> faithfulness_dict \<Rightarrow> thresholds_dict \<Rightarrow> labels" where
  "map_labels pred gold localization faithfulness thresholds =
     (let primary0 = (None :: string option);
          plist = get_or (ans_paths (get_or (pred_answer pred) empty_answer)) [];
          ppaths = set plist;
          gpaths = set (get_or (g_paths gold) []);
          primary1 =
            (if ppaths = {} then Some (get_or primary0 LABEL_MISSING_PATH)
             else if gpaths \<noteq> {} \<and> ppaths \<noteq> gpaths then Some (get_or primary0 LABEL_WRONG_PATH)
             else primary0);
          primary2 =
            (if get_or (d_line_iou_min localization) 1 < get_or (d_thr_line_iou_min thresholds) (6 / 10)
             then Some (get_or primary1 LABEL_WRONG_LINE) else primary1);
          reason = d_faithfulness_reason faithfulness;
          secondary =
              (if d_symbol_match localization = Some 0 then [LABEL_SYMBOL_ABSENT] else [])
            @ (if reason = Some ''cite_missing'' then [LABEL_CITE_MISSING]
               else if reason = Some ''cite_irrelevant'' then [LABEL_CITE_IRRELEVANT] else [])
            @ (if list_ex (\<lambda>p. py_in ''/vendor/'' p \<or> py_in ''third_party'' p) plist
               then [LABEL_VENDOR_HIT] else [])
            @ (if list_ex (\<lambda>p. py_in ''/test'' p \<or> py_in ''/tests/'' p) plist
               then [LABEL_TEST_INSTEAD_OF_SRC] else [])
            @ slo_labels pred thresholds;
          default_primary = (if gpaths \<noteq> {} then LABEL_OK else LABEL_MISSING_PATH)
      in \<lparr>primary = get_or primary2 default_primary, secondary = secondary\<rparr>)"

definition map_w2_labels ::
  "bool \<Rightarrow> int \<Rightarrow> int \<Rightarrow> int \<Rightarrow> thresholds_dict \<Rightarrow> prediction \<Rightarrow> labels" where
  "map_w2_labels forbidden_hit anchors_found anchors_faithful anchors_required slo pred =
     (let primary0 = LABEL_OK;
          primary1 =
            (if anchors_found < anchors_required then LABEL_ANCHORS_MISSING
             else if anchors_faithful < anchors_required then LABEL_ANCHORS_UNFAITHFUL
             else primary0);
          primary2 = (if forbidden_hit then LABEL_FORBIDDEN_CLAIM else primary1)
      in \<lparr>primary = primary2, secondary = slo_labels pred slo\<rparr>)"

section \<open>Configuration: \<^verbatim>\<open>eval/runner/config.py\<close>\<close>

record W1Thresholds =
  path_match_required :: bool
  line_iou_min :: rat
  require_symbol_match :: bool
  faithfulness_required :: bool

record CanaryThresholds =
  require_100_percent :: bool

record Thresholds =
  w1 :: W1Thresholds
  canary :: CanaryThresholds

record LatencyCostSLO =
  p95_latency_ms :: int
  max_tokens_in :: int
  max_tokens_out :: int
  max_context_tokens :: int

record RunCfg =
  seed :: int
  fail_fast_on_canary :: bool

record SutCLI =
  cmd :: string
  extra_args :: "string list"
  timeout_s :: int

record EvalConfig =
  thresholds :: Thresholds
  latency_cost_slo :: LatencyCostSLO
  run :: RunCfg
  sut_cli :: SutCLI

text \<open>The defaults of the dataclasses.\<close>

definition default_w1 :: W1Thresholds where
  "default_w1 = \<lparr>path_match_required = True, line_iou_min = 6 / 10,
     require_symbol_match = True, faithfulness_required = True\<rparr>"

definition default_config :: EvalConfig where
  "default_config =
     \<lparr>thresholds = \<lparr>w1 = default_w1, canary = \<lparr>require_100_percent = True\<rparr>\<rparr>,
      latency_cost_slo = \<lparr>p95_latency_ms = 5000, max_tokens_in = 20000,
        max_tokens_out = 4000, max_context_tokens = 50000\<rparr>,
      run = \<lparr>seed = 7, fail_fast_on_canary = True\<rparr>,
      sut_cli = \<lparr>cmd = ''python -m api.query_agent'', extra_args = [], timeout_s = 60\<rparr>\<rparr>"

section \<open>SUT invoker: \<^verbatim>\<open>eval/runner/common.py\<close>\<close>

text \<open>\<^verbatim>\<open>_normalize_timing_tokens\<close>: each \<^verbatim>\<open>setdefault\<close> fills a key only when it is absent.\<close>

definition normalize_timing_tokens :: "prediction \<Rightarrow> int \<Rightarrow> prediction" where
  "normalize_timing_tokens resp fallback_latency_ms =
     (let tm = get_or (pred_timing resp) empty_timing;
          tm' = tm\<lparr>tm_latency_ms := Some (get_or (tm_latency_ms tm) fallback_latency_ms)\<rparr>;
          tk = get_or (pred_tokens resp) empty_tokens;
          tk' = tk\<lparr>tok_in := Some (get_or (tok_in tk) 0),
                   tok_out := Some (get_or (tok_out tk) 0),
                   tok_context := Some (get_or (tok_context tk) 0)\<rparr>
      in resp\<lparr>pred_timing := Some tm', pred_tokens := Some tk'\<rparr>)"

text \<open>
  What one call of \<^verbatim>\<open>subprocess.run(argv, timeout=timeout_s)\<close> can do, together with
  the wall-clock time \<^verbatim>\<open>int((time.time() - start) * 1000)\<close> that \<^verbatim>\<open>call_sut\<close> reads
  afterwards: the process outlives the timeout (\<^verbatim>\<open>subprocess.TimeoutExpired\<close>), or it
  ends and its stripped standard output is empty, decodes as a JSON object, or does not
  decode. The process and the clock are the environment of the runner: a function from
  the task and the command line to such an outcome.
\<close>

datatype stdout_json = Blank | Decoded prediction | Undecodable string

datatype proc_outcome = TimeoutExpired int | Completed stdout_json int

type_synonym subprocess = "task \<Rightarrow> string \<Rightarrow> string list \<Rightarrow> int \<Rightarrow> proc_outcome"

definition call_sut :: "subprocess \<Rightarrow> task \<Rightarrow> int \<Rightarrow> string \<Rightarrow> string list \<Rightarrow> prediction" where
  "call_sut subprocess_run tsk timeout cmd_line args =
     (case subprocess_run tsk cmd_line args timeout of
        TimeoutExpired elapsed_ms \<Rightarrow>
          normalize_timing_tokens (empty_prediction\<lparr>pred_error := Some ''timeout''\<rparr>) elapsed_ms
      | Completed out latency \<Rightarrow>
          (let resp = (case out of
                         Blank \<Rightarrow> empty_prediction
                       | Decoded r \<Rightarrow> r
                       | Undecodable text \<Rightarrow> empty_prediction\<lparr>pred_raw := Some text\<rparr>)
           in normalize_timing_tokens resp latency))"

section \<open>Suite runner, localization workflow: \<^verbatim>\<open>eval/runner/run_localization.py\<close>\<close>

record evaluation =
  ev_passed :: int
  ev_loc :: localization
  ev_faith :: faith_result
  ev_labels :: labels

definition evaluate_task ::
  "(string \<Rightarrow> string \<Rightarrow> bool) \<Rightarrow> task \<Rightarrow> prediction \<Rightarrow> golden \<Rightarrow> EvalConfig \<Rightarrow> evaluation" where
  "evaluate_task re_search tsk pred gold cfg =
     (let ans = get_or (pred_answer pred) empty_answer;
          loc = evaluate_localization re_search ans gold (get_or (t_inputs tsk) empty_inputs);
          faith = evaluate_faithfulness ans (get_or (pred_citations pred) []);
          lbls = map_labels pred gold
            \<lparr>d_line_iou_min = Some (loc_line_iou_min loc), d_symbol_match = Some (loc_symbol_match loc)\<rparr>
            \<lparr>d_faithfulness_reason = Some (faithfulness_reason faith)\<rparr>
            \<lparr>d_thr_line_iou_min = Some (line_iou_min (w1 (thresholds cfg))),
              d_p95_latency_ms = Some (of_int (p95_latency_ms (latency_cost_slo cfg))),
              d_max_tokens_in = Some (of_int (max_tokens_in (latency_cost_slo cfg))),
              d_max_tokens_out = Some (of_int (max_tokens_out (latency_cost_slo cfg))),
              d_max_context_tokens = Some (of_int (max_context_tokens (latency_cost_slo cfg)))\<rparr>;
          passed0 = (1 :: int);
          passed1 = (if path_match_required (w1 (thresholds cfg)) \<and> loc_path_match loc \<noteq> 1
                     then 0 else passed0);
          passed2 = (if loc_line_iou_min loc < line_iou_min (w1 (thresholds cfg))
                     then 0 else passed1);
          passed3 = (if require_symbol_match (w1 (thresholds cfg)) \<and> loc_symbol_match loc \<noteq> 1
                     then 0 else passed2);
          passed4 = (if faithfulness_required (w1 (thresholds cfg)) \<and> faithful faith \<noteq> 1
                     then 0 else passed3)
      in \<lparr>ev_passed = passed4, ev_loc = loc, ev_faith = faith, ev_labels = lbls\<rparr>)"

text \<open>Python's \<^verbatim>\<open>sep.join(xs)\<close>.\<close>

fun py_join :: "string \<Rightarrow> string list \<Rightarrow> string" where
  "py_join sep [] = []"
| "py_join sep [x] = x"
| "py_join sep (x # y # ys) = x @ sep @ py_join sep (y # ys)"

record row =
  row_task_id :: "string option"
  row_path_match :: int
  row_line_iou_avg :: rat
  row_line_iou_min :: rat
  row_symbol_match :: int
  row_symbol_presence_rate :: rat
  row_faithful :: int
  row_faithfulness_reason :: string
  row_label_primary :: string
  row_label_secondary :: string
  row_latency_ms :: int
  row_tokens_in :: int
  row_tokens_out :: int
  row_context_tokens :: int
  row_passed :: int

text \<open>
  \<^verbatim>\<open>goldens.get(tid, {})\<close> on the dictionary merged from the golden directories: a task
  without a golden (or without an id: the loader keeps no golden under an empty key) gets
  the empty golden.
\<close>

definition lookup_golden :: "(string \<rightharpoonup> golden) \<Rightarrow> string option \<Rightarrow> golden" where
  "lookup_golden goldens tid =
     (case tid of None \<Rightarrow> empty_golden | Some k \<Rightarrow> get_or (goldens k) empty_golden)"

text \<open>The body of the loop of \<^verbatim>\<open>_run_suite\<close> for one task.\<close>

definition suite_row ::
  "(string \<Rightarrow> string \<Rightarrow> bool) \<Rightarrow> subprocess \<Rightarrow> EvalConfig \<Rightarrow> (string \<rightharpoonup> golden) \<Rightarrow> task \<Rightarrow> row" where
  "suite_row re_search subprocess_run cfg goldens tsk =
     (let tid = t_id tsk;
          gold = lookup_golden goldens tid;
          pred = call_sut subprocess_run tsk (timeout_s (sut_cli cfg)) (cmd (sut_cli cfg))
                   (extra_args (sut_cli cfg));
          evald = evaluate_task re_search tsk pred gold cfg;
          tok = get_or (pred_tokens pred) empty_tokens
      in \<lparr>row_task_id = tid,
          row_path_match = loc_path_match (ev_loc evald),
          row_line_iou_avg = loc_line_iou_avg (ev_loc evald),
          row_line_iou_min = loc_line_iou_min (ev_loc evald),
          row_symbol_match = loc_symbol_match (ev_loc evald),
          row_symbol_presence_rate = loc_symbol_presence_rate (ev_loc evald),
          row_faithful = faithful (ev_faith evald),
          row_faithfulness_reason = faithfulness_reason (ev_faith evald),
          row_label_primary = primary (ev_labels evald),
          row_label_secondary = py_join '','' (secondary (ev_labels evald)),
          row_latency_ms = get_or (tm_latency_ms (get_or (pred_timing pred) empty_timing)) 0,
          row_tokens_in = get_or (tok_in tok) 0,
          row_tokens_out = get_or (tok_out tok) 0,
          row_context_tokens = get_or (tok_context tok) 0,
          row_passed = ev_passed evald\<rparr>)"

fun run_suite ::
  "(string \<Rightarrow> string \<Rightarrow> bool) \<Rightarrow> subprocess \<Rightarrow> EvalConfig \<Rightarrow> (string \<rightharpoonup> golden) \<Rightarrow> task list \<Rightarrow> row list" where
  "run_suite re_search subprocess_run cfg goldens [] = []"
| "run_suite re_search subprocess_run cfg goldens (tsk # tasks) =
     suite_row re_search subprocess_run cfg goldens tsk
       # run_suite re_search subprocess_run cfg goldens tasks"

text \<open>
  \<^verbatim>\<open>_print_cli_summary\<close>: the accuracy it prints, \<open>None\<close> when it prints
  \<^verbatim>\<open>No tasks.\<close> and returns.
\<close>

definition count_rows :: "(row \<Rightarrow> bool) \<Rightarrow> row list \<Rightarrow> rat" where
  "count_rows P rows = of_nat (length (filter P rows))"

definition path_match_and_faithful :: "row \<Rightarrow> bool" where
  "path_match_and_faithful r = (row_path_match r = 1 \<and> row_faithful r = 1)"

definition row_is_passed :: "row \<Rightarrow> bool" where
  "row_is_passed r = (row_passed r \<noteq> 0)"

definition row_is_faithful :: "row \<Rightarrow> bool" where
  "row_is_faithful r = (row_faithful r = 1)"

definition cli_summary_accuracy :: "row list \<Rightarrow> rat option" where
  "cli_summary_accuracy rows =
     (if rows = [] then None
      else Some (count_rows path_match_and_faithful rows / of_nat (max (length rows) 1)))"

text \<open>
  The summary dictionary built by \<^verbatim>\<open>main\<close> from the rows of the full suite: the
  counts and means. The run identifier, the latency percentiles and the breakdown by
  variant kind are not part of the model.
\<close>

record summary =
  num_tasks :: nat
  accuracy_localization :: rat
  faithfulness_rate :: rat
  line_iou_avg :: rat
  avg_tokens_in :: rat
  avg_tokens_out :: rat
  avg_tokens_total :: rat
  canary_pass :: bool

definition run_summary :: "row list \<Rightarrow> int \<Rightarrow> summary" where
  "run_summary rows gate_code =
     (let n = of_nat (max (length rows) 1);
          tin = of_int (sum_list (map row_tokens_in rows)) / n;
          tout = of_int (sum_list (map row_tokens_out rows)) / n
      in \<lparr>num_tasks = length rows,
          accuracy_localization = count_rows row_is_passed rows / n,
          faithfulness_rate = count_rows row_is_faithful rows / n,
          line_iou_avg = sum_list (map row_line_iou_avg rows) / n,
          avg_tokens_in = tin,
          avg_tokens_out = tout,
          avg_tokens_total = tin + tout,
          canary_pass = (gate_code = 0)\<rparr>)"

text \<open>
  The canary gate. What it prints is a list of lines; the second line carries the number
  of canary rows and the threshold, whose formatting is Python's.
\<close>

datatype out_line = Line string | CanariesLine nat rat

text \<open>\<^verbatim>\<open>f"{r.get('task_id')}"\<close>: a task without an id prints as \<^verbatim>\<open>None\<close>.\<close>

definition str_of_id :: "string option \<Rightarrow> string" where
  "str_of_id tid = (case tid of None \<Rightarrow> ''None'' | Some k \<Rightarrow> k)"

definition canary_checks :: "EvalConfig \<Rightarrow> row \<Rightarrow> string list" where
  "canary_checks cfg r =
       (if path_match_required (w1 (thresholds cfg)) \<and> row_path_match r \<noteq> 1
        then [''path_match''] else [])
     @ (if row_line_iou_min r < line_iou_min (w1 (thresholds cfg))
        then [''line_iou_min''] else [])
     @ (if require_symbol_match (w1 (thresholds cfg)) \<and> row_symbol_match r \<noteq> 1
        then [''symbol_match''] else [])
     @ (if faithfulness_required (w1 (thresholds cfg)) \<and> row_faithful r \<noteq> 1
        then [''faithful''] else [])"

definition failure_line :: "EvalConfig \<Rightarrow> row \<Rightarrow> string" where
  "failure_line cfg r =
     str_of_id (row_task_id r) @ '': fail('' @ py_join '','' (canary_checks cfg r) @ '')''"

fun canary_failures :: "EvalConfig \<Rightarrow> row list \<Rightarrow> string list" where
  "canary_failures cfg [] = []"
| "canary_failures cfg (r # rows) =
     (if canary_checks cfg r \<noteq> [] then failure_line cfg r # canary_failures cfg rows
      else canary_failures cfg rows)"

text \<open>The gate on the rows of the canary suite: the printed lines and the exit code.\<close>

definition canary_gate :: "EvalConfig \<Rightarrow> row list \<Rightarrow> out_line list \<times> int" where
  "canary_gate cfg rows =
     (let header = [Line ''Running W1 canary gate...'',
                    CanariesLine (length rows) (line_iou_min (w1 (thresholds cfg)))];
          failures = canary_failures cfg rows
      in if require_100_percent (canary (thresholds cfg)) \<and> failures \<noteq> []
         then (header @ [Line ''Canary gate FAILED:''] @ map (\<lambda>f. Line (''- '' @ f)) failures, 1)
         else (header @ [Line ''Canary gate PASSED''], 0))"

text \<open>
  \<^verbatim>\<open>assert_canary_gate\<close>: the canary tasks and the goldens are what the loaders read
  from the canary and golden directories.
\<close>

definition assert_canary_gate ::
  "(string \<Rightarrow> string \<Rightarrow> bool) \<Rightarrow> subprocess \<Rightarrow> EvalConfig \<Rightarrow> (string \<rightharpoonup> golden) \<Rightarrow> task list
     \<Rightarrow> out_line list \<times> int" where
  "assert_canary_gate re_search subprocess_run cfg goldens canary_tasks =
     canary_gate cfg (run_suite re_search subprocess_run cfg goldens canary_tasks)"

section \<open>Suite runner, change-impact workflow: \<^verbatim>\<open>eval/runner/run_change_impact.py\<close>\<close>

definition anchor_line_iou :: "range list \<Rightarrow> range \<Rightarrow> rat" where
  "anchor_line_iou cited_ranges quote_range = mn (line_iou_scores [quote_range] cited_ranges)"

text \<open>
  The search for a matching example quote: the two nested \<^verbatim>\<open>for\<close> loops that set
  \<^verbatim>\<open>faith_ok\<close> and break.
\<close>

definition faith_ok ::
  "EvalConfig \<Rightarrow> example_quote list \<Rightarrow> citation list \<Rightarrow> bool" where
  "faith_ok cfg examples_for_path cited =
     list_ex (\<lambda>ex.
        let qr = (get_or (exq_start ex) 0, get_or (exq_end ex) 0)
        in list_ex (\<lambda>c.
             let cr = (get_or (cit_start c) 0, get_or (cit_end c) 0)
             in anchor_line_iou [cr] qr \<ge> line_iou_min (w1 (thresholds cfg))) cited)
       examples_for_path"

text \<open>
  The loop over the required anchors, with the two counters \<^verbatim>\<open>anchors_found\<close> and
  \<^verbatim>\<open>anchors_faithful\<close> as an accumulator; each \<^verbatim>\<open>continue\<close> is a recursive call
  that leaves a counter as it is.
\<close>

fun anchor_loop ::
  "EvalConfig \<Rightarrow> answer \<Rightarrow> golden \<Rightarrow> citation list \<Rightarrow> anchor list \<Rightarrow> int \<times> int \<Rightarrow> int \<times> int" where
  "anchor_loop cfg ans gold citations [] (anchors_found, anchors_faithful) =
     (anchors_found, anchors_faithful)"
| "anchor_loop cfg ans gold citations (req # required) (anchors_found, anchors_faithful) =
     (let path = anc_path req;
          symbol = anc_symbol req;
          cited = filter (\<lambda>c. cit_path c = path) citations
      in if cited = [] then anchor_loop cfg ans gold citations required (anchors_found, anchors_faithful)
         else if (case symbol of None \<Rightarrow> False
                  | Some sy \<Rightarrow> sy \<noteq> [] \<and> \<not> py_in sy (get_or (ans_rationale ans) []))
           then anchor_loop cfg ans gold citations required (anchors_found + 1, anchors_faithful)
         else
           let examples = get_or (g_example_quotes gold) [];
               examples_for_path = filter (\<lambda>q. exq_path q = path) examples
           in if faith_ok cfg examples_for_path cited
              then anchor_loop cfg ans gold citations required (anchors_found + 1, anchors_faithful + 1)
              else anchor_loop cfg ans gold citations required (anchors_found + 1, anchors_faithful))"

record core =
  core_faith :: faith_result
  anchors_required :: int
  anchors_found :: int
  anchor_coverage :: rat
  anchors_faithful :: int
  anchor_faithful_rate :: rat
  forbidden_hit :: int

definition deterministic_core :: "task \<Rightarrow> prediction \<Rightarrow> golden \<Rightarrow> EvalConfig \<Rightarrow> core" where
  "deterministic_core tsk pred gold cfg =
     (let ans = get_or (pred_answer pred) empty_answer;
          citations = get_or (pred_citations pred) [];
          faith = evaluate_faithfulness ans citations;
          required = get_or (g_required_anchors gold) [];
          counters = anchor_loop cfg ans gold citations required (0, 0);
          forbidden = list_ex (\<lambda>claim. claim \<noteq> [] \<and> py_in claim (get_or (ans_rationale ans) []))
                        (get_or (g_forbidden_claims gold) []);
          n_required = int (length required);
          coverage = (if n_required \<noteq> 0 then of_int (fst counters) / of_int n_required else 0);
          faith_rate = (if n_required \<noteq> 0 then of_int (snd counters) / of_int n_required else 0)
      in \<lparr>core_faith = faith,
          anchors_required = n_required,
          anchors_found = fst counters,
          anchor_coverage = coverage,
          anchors_faithful = snd counters,
          anchor_faithful_rate = faith_rate,
          forbidden_hit = (if forbidden then 1 else 0)\<rparr>)"

text \<open>
  The part of the loop body of \<^verbatim>\<open>main\<close> that judges one task: the overall verdict and
  the labels of its row.
\<close>

definition faithful_overall :: "EvalConfig \<Rightarrow> core \<Rightarrow> int" where
  "faithful_overall cfg c =
     (if anchor_faithful_rate c = 1 \<and> forbidden_hit c = 0 \<and>
         (faithful (core_faith c) = 1 \<or> \<not> faithfulness_required (w1 (thresholds cfg)))
      then 1 else 0)"

record w2_row =
  w2_task_id :: "string option"
  w2_anchors_required :: int
  w2_anchors_found :: int
  w2_anchor_coverage :: rat
  w2_anchors_faithful :: int
  w2_anchor_faithful_rate :: rat
  w2_forbidden_hit :: int
  w2_faithful_overall :: int
  w2_label_primary :: string
  w2_label_secondary :: string

definition w2_row_of :: "subprocess \<Rightarrow> EvalConfig \<Rightarrow> (string \<rightharpoonup> golden) \<Rightarrow> task \<Rightarrow> w2_row" where
  "w2_row_of subprocess_run cfg goldens tsk =
     (let gold = lookup_golden goldens (t_id tsk);
          pred = call_sut subprocess_run tsk (timeout_s (sut_cli cfg)) (cmd (sut_cli cfg))
                   (extra_args (sut_cli cfg));
          c = deterministic_core tsk pred gold cfg;
          lbls = map_w2_labels (forbidden_hit c \<noteq> 0) (anchors_found c) (anchors_faithful c)
                   (anchors_required c)
                   \<lparr>d_thr_line_iou_min = None,
                     d_p95_latency_ms = Some (of_int (p95_latency_ms (latency_cost_slo cfg))),
                     d_max_tokens_in = Some (of_int (max_tokens_in (latency_cost_slo cfg))),
                     d_max_tokens_out = Some (of_int (max_tokens_out (latency_cost_slo cfg))),
                     d_max_context_tokens = Some (of_int (max_context_tokens (latency_cost_slo cfg)))\<rparr>
                   pred
      in \<lparr>w2_task_id = t_id tsk,
          w2_anchors_required = anchors_required c,
          w2_anchors_found = anchors_found c,
          w2_anchor_coverage = anchor_coverage c,
          w2_anchors_faithful = anchors_faithful c,
          w2_anchor_faithful_rate = anchor_faithful_rate c,
          w2_forbidden_hit = forbidden_hit c,
          w2_faithful_overall = faithful_overall cfg c,
          w2_label_primary = primary lbls,
          w2_label_secondary = py_join '','' (secondary lbls)\<rparr>)"

section \<open>Variant generator: \<^verbatim>\<open>eval/utils/variants.py\<close>\<close>

text \<open>
  The five string transforms. Strings are byte strings here and the case functions act on
  the ASCII letters; \<^verbatim>\<open>str.upper\<close> and \<^verbatim>\<open>str.lower\<close> agree with them on ASCII text.
\<close>

definition is_lower :: "char \<Rightarrow> bool" where
  "is_lower c = (97 \<le> (of_char c :: nat) \<and> (of_char c :: nat) \<le> 122)"

definition is_upper :: "char \<Rightarrow> bool" where
  "is_upper c = (65 \<le> (of_char c :: nat) \<and> (of_char c :: nat) \<le> 90)"

definition to_upper :: "char \<Rightarrow> char" where
  "to_upper c = (if is_lower c then char_of ((of_char c :: nat) - 32) else c)"

definition to_lower :: "char \<Rightarrow> char" where
  "to_lower c = (if is_upper c then char_of ((of_char c :: nat) + 32) else c)"

definition case_toggle :: "string \<Rightarrow> string" where
  "case_toggle symbol =
     (if symbol = [] then symbol
      else if list_ex is_lower symbol then map to_upper symbol
      else map to_lower symbol)"

text \<open>
  \<^verbatim>\<open>'/'.join(path.split('/')[:-1])\<close> is the path up to its last slash, and the split
  has fewer than two parts exactly when the path has no slash.
\<close>

fun split_slash :: "string \<Rightarrow> string list" where
  "split_slash [] = [[]]"
| "split_slash (c # cs) =
     (if c = CHR ''/'' then [] # split_slash cs
      else (case split_slash cs of [] \<Rightarrow> [[c]] | p # ps \<Rightarrow> (c # p) # ps))"

definition add_reexport_layer :: "string \<Rightarrow> string" where
  "add_reexport_layer path =
     (if path = [] then path
      else
        let parts = split_slash path
        in if length parts < 2 then path
           else py_join ''/'' (butlast parts) @ ''/index.c'')"

definition test_shadow :: "string \<Rightarrow> string" where
  "test_shadow path = (if path = [] then path else ''tests/'' @ path)"

definition vendor_shadow :: "string \<Rightarrow> string" where
  "vendor_shadow path = (if path = [] then path else ''vendor/'' @ path)"

text \<open>
  \<^verbatim>\<open>s.replace(old, new)\<close> for a non-empty \<open>old\<close>: every occurrence, left to right,
  without overlap. (The generator only calls it with the three fixed suffixes.)
\<close>

function py_replace :: "string \<Rightarrow> string \<Rightarrow> string \<Rightarrow> string" where
  "py_replace old new s =
     (if old = [] \<or> s = [] then s
      else if prefix old s then new @ py_replace old new (drop (length old) s)
      else hd s # py_replace old new (tl s))"
  by pat_completeness auto
termination
  by (relation "measure (\<lambda>(old, new, s). length s)") auto

declare py_replace.simps [simp del]

definition near_name :: "string \<Rightarrow> string" where
  "near_name symbol =
     (if symbol = [] then symbol
      else if suffix ''_display'' symbol then py_replace ''_display'' ''_displays'' symbol
      else if suffix ''_create'' symbol then py_replace ''_create'' ''_creates'' symbol
      else if suffix ''_init'' symbol then py_replace ''_init'' ''_inits'' symbol
      else if \<not> suffix ''s'' symbol then symbol @ ''s'' else symbol)"

text \<open>The dictionary \<^verbatim>\<open>methods\<close> of \<^verbatim>\<open>generate_variants\<close>.\<close>

definition methods :: "string \<Rightarrow> (string \<Rightarrow> string) option" where
  "methods kind =
     (if kind = ''case'' then Some case_toggle
      else if kind = ''reexport'' then Some add_reexport_layer
      else if kind = ''test'' then Some test_shadow
      else if kind = ''vendor'' then Some vendor_shadow
      else if kind = ''nearname'' then Some near_name
      else None)"

definition generate_variant_task ::
  "golden \<Rightarrow> string \<Rightarrow> string \<Rightarrow> (string \<Rightarrow> string) \<Rightarrow> task" where
  "generate_variant_task source_golden variant_id kind method_func =
     (let source_symbol = get_or (g_symbol source_golden) [];
          modified_symbol = (if source_symbol \<noteq> [] then method_func source_symbol else []);
          excl = (if kind = ''test'' then [''vendor/'']
                  else if kind = ''vendor'' then [''tests/'']
                  else [''vendor/'', ''tests/''])
      in \<lparr>t_id = Some variant_id,
          t_workflow = Some ''w1_localization'',
          t_inputs = Some (if modified_symbol \<noteq> [] then \<lparr>inp_symbol = Some modified_symbol\<rparr>
                           else empty_inputs),
          t_constraints = Some \<lparr>must_cite = True, exclude_dirs = excl\<rparr>,
          t_acceptance_criteria = Some
            \<lparr>acc_paths = get_or (g_paths source_golden) [],
             acc_line_ranges = get_or (g_line_ranges source_golden) [],
             acc_checklist = get_or (g_checklist source_golden) []\<rparr>,
          t_tags = Some [''variant'', kind, ''from:'' @ get_or (g_task_id source_golden) []]\<rparr>)"

definition empty_provenance :: provenance where
  "empty_provenance = \<lparr>prov_from_task = None, prov_method = None, prov_repo = None,
     prov_commit = None\<rparr>"

definition generate_variant_golden :: "golden \<Rightarrow> string \<Rightarrow> string \<Rightarrow> golden" where
  "generate_variant_golden source_golden variant_id kind =
     empty_golden
       \<lparr>g_task_id := Some variant_id,
        g_paths := Some (get_or (g_paths source_golden) []),
        g_line_ranges := Some (get_or (g_line_ranges source_golden) []),
        g_quotes := Some (get_or (g_quotes source_golden) []),
        g_provenance := Some
          \<lparr>prov_from_task = Some (get_or (g_task_id source_golden) []),
           prov_method = Some kind,
           prov_repo = Some (get_or (prov_repo (get_or (g_provenance source_golden) empty_provenance)) []),
           prov_commit = Some (get_or (prov_commit (get_or (g_provenance source_golden) empty_provenance)) [])\<rparr>,
        g_notes := Some ''Variant derived; truth unchanged''\<rparr>"

text \<open>\<^verbatim>\<open>f"W1-VAR-{generated + 1:03d}"\<close>: decimal digits, padded with zeros to width three.\<close>

fun digits_fuel :: "nat \<Rightarrow> nat \<Rightarrow> string" where
  "digits_fuel 0 n = []"
| "digits_fuel (Suc k) n =
     (if n < 10 then [char_of (48 + n)]
      else digits_fuel k (n div 10) @ [char_of (48 + n mod 10)])"

definition str_of_nat :: "nat \<Rightarrow> string" where
  "str_of_nat n = digits_fuel (Suc n) n"

definition variant_id_of :: "nat \<Rightarrow> string" where
  "variant_id_of generated =
     (let d = str_of_nat (generated + 1)
      in ''W1-VAR-'' @ replicate (3 - length d) CHR ''0'' @ d)"

text \<open>
  The loops of \<^verbatim>\<open>generate_variants\<close>. The state is the counter \<^verbatim>\<open>generated\<close> and the
  two output lists; the inner loop runs over the kinds for one golden, the outer one over
  the goldens, and both stop once the limit is reached.
\<close>

type_synonym variants_state = "nat \<times> task list \<times> golden list"

fun kinds_loop :: "int \<Rightarrow> golden \<Rightarrow> string list \<Rightarrow> variants_state \<Rightarrow> variants_state" where
  "kinds_loop limit gold [] st = st"
| "kinds_loop limit gold (kind # kinds) (generated, variant_tasks, variant_goldens) =
     (if int generated \<ge> limit then (generated, variant_tasks, variant_goldens)
      else (case methods kind of
              None \<Rightarrow> kinds_loop limit gold kinds (generated, variant_tasks, variant_goldens)
            | Some method_func \<Rightarrow>
                let variant_id = variant_id_of generated;
                    variant_task = generate_variant_task gold variant_id kind method_func;
                    variant_golden = generate_variant_golden gold variant_id kind
                in kinds_loop limit gold kinds
                     (generated + 1, variant_tasks @ [variant_task], variant_goldens @ [variant_golden])))"

fun goldens_loop :: "int \<Rightarrow> string list \<Rightarrow> golden list \<Rightarrow> variants_state \<Rightarrow> variants_state" where
  "goldens_loop limit kinds [] st = st"
| "goldens_loop limit kinds (gold # goldens) (generated, variant_tasks, variant_goldens) =
     (if int generated \<ge> limit then (generated, variant_tasks, variant_goldens)
      else goldens_loop limit kinds goldens
             (kinds_loop limit gold kinds (generated, variant_tasks, variant_goldens)))"

text \<open>
  \<^verbatim>\<open>generate_variants\<close> on the goldens loaded from the source directory: the variant
  tasks and the variant goldens it writes (nothing when there is no golden).
\<close>

definition generate_variants :: "golden list \<Rightarrow> int \<Rightarrow> string list \<Rightarrow> task list \<times> golden list" where
  "generate_variants goldens limit kinds =
     (if goldens = [] then ([], [])
      else snd (goldens_loop limit kinds goldens (0, [], [])))"

section \<open>The invoker and the suite loop with their effects\<close>

text \<open>
  The functions above give the value that the invoker and the suite loop compute when
  nothing is raised. This section adds what they do besides: every call of
  \<^verbatim>\<open>call_sut\<close> starts one process with \<^verbatim>\<open>subprocess.run\<close>, and an exception that
  \<^verbatim>\<open>call_sut\<close> or the loop body of \<^verbatim>\<open>_run_suite\<close> does not catch ends the run. The
  state is the number of processes started so far, and a result is either the exception
  raised (\<open>Inl\<close>) or the value returned (\<open>Inr\<close>).

  A top-level key of the JSON object printed by the SUT is absent, holds
  \<^verbatim>\<open>null\<close>, or holds a value of the shape the specification gives to a prediction.
  Below the top level, and in the goldens and the tasks, a \<^verbatim>\<open>null\<close> is read as an
  absent key, as in the records above; values of any other wrong type are not modelled.
\<close>

datatype 'a slot = Absent | Null | Holds 'a

definition slot_get :: "'a slot \<Rightarrow> 'a option" where
  "slot_get s = (case s of Absent \<Rightarrow> None | Null \<Rightarrow> None | Holds x \<Rightarrow> Some x)"

record response =
  resp_error :: "string option"
  resp_raw :: "string option"
  resp_answer :: "answer slot"
  resp_citations :: "citation list slot"
  resp_timing :: "timing slot"
  resp_tokens :: "tokens slot"

definition empty_response :: response where
  "empty_response = \<lparr>resp_error = None, resp_raw = None, resp_answer = Absent,
     resp_citations = Absent, resp_timing = Absent, resp_tokens = Absent\<rparr>"

text \<open>The prediction that the metric functions see in a response.\<close>

definition prediction_of :: "response \<Rightarrow> prediction" where
  "prediction_of r = \<lparr>pred_error = resp_error r, pred_raw = resp_raw r,
     pred_answer = slot_get (resp_answer r), pred_citations = slot_get (resp_citations r),
     pred_timing = slot_get (resp_timing r), pred_tokens = slot_get (resp_tokens r)\<rparr>"

text \<open>
  The exceptions: one that \<^verbatim>\<open>subprocess.run\<close> raises other than
  \<^verbatim>\<open>TimeoutExpired\<close> (the command is not found, for instance), by its name, and the
  \<^verbatim>\<open>AttributeError\<close> of a method call on a value that is not a dictionary.
\<close>

datatype py_exception = Raised string | AttributeError

text \<open>
  What one started process does, with the time the invoker then reads from the clock: it
  makes \<^verbatim>\<open>subprocess.run\<close> raise, it outlives the timeout, or it ends, and its stripped
  output is empty, a JSON object, another JSON value (a list, a number, \<^verbatim>\<open>null\<close>), or
  not JSON. The environment gives this for every process by its number, so that a second
  process for the same task may do something else than the first.
\<close>

datatype exit_output = NoOutput | JsonObject response | JsonOther | NotJson string

datatype proc_event = Raises string | Expires int | Exits exit_output int

type_synonym process = "nat \<Rightarrow> task \<Rightarrow> string \<Rightarrow> string list \<Rightarrow> int \<Rightarrow> proc_event"

text \<open>
  \<^verbatim>\<open>_normalize_timing_tokens\<close> with its exceptions: \<^verbatim>\<open>resp.setdefault("timing", {})\<close>
  leaves a \<^verbatim>\<open>null\<close> in place, and \<^verbatim>\<open>resp["timing"].setdefault\<close> then raises; the
  same for \<^verbatim>\<open>tokens\<close>.
\<close>

definition normalize_timing_tokens_io :: "response \<Rightarrow> int \<Rightarrow> py_exception + response" where
  "normalize_timing_tokens_io resp fallback_latency_ms =
     (case resp_timing resp of
        Null \<Rightarrow> Inl AttributeError
      | timing_slot \<Rightarrow>
          (let tm = get_or (slot_get timing_slot) empty_timing;
               tm' = tm\<lparr>tm_latency_ms := Some (get_or (tm_latency_ms tm) fallback_latency_ms)\<rparr>
           in case resp_tokens resp of
                Null \<Rightarrow> Inl AttributeError
              | tokens_slot \<Rightarrow>
                  (let tk = get_or (slot_get tokens_slot) empty_tokens;
                       tk' = tk\<lparr>tok_in := Some (get_or (tok_in tk) 0),
                                tok_out := Some (get_or (tok_out tk) 0),
                                tok_context := Some (get_or (tok_context tk) 0)\<rparr>
                   in Inr (resp\<lparr>resp_timing := Holds tm', resp_tokens := Holds tk'\<rparr>))))"

text \<open>
  \<^verbatim>\<open>call_sut\<close> with its effects. It starts process number \<open>n\<close> and no other. Only
  \<^verbatim>\<open>TimeoutExpired\<close> and a failure of \<^verbatim>\<open>json.loads\<close> are caught; a JSON value
  that is not an object has no \<^verbatim>\<open>setdefault\<close>.
\<close>

definition call_sut_io ::
  "process \<Rightarrow> task \<Rightarrow> int \<Rightarrow> string \<Rightarrow> string list \<Rightarrow> nat \<Rightarrow> (py_exception + response) \<times> nat" where
  "call_sut_io proc tsk timeout cmd_line args n =
     (case proc n tsk cmd_line args timeout of
        Raises name \<Rightarrow> (Inl (Raised name), Suc n)
      | Expires elapsed_ms \<Rightarrow>
          (normalize_timing_tokens_io (empty_response\<lparr>resp_error := Some ''timeout''\<rparr>) elapsed_ms,
           Suc n)
      | Exits out latency \<Rightarrow>
          (case out of
             JsonOther \<Rightarrow> (Inl AttributeError, Suc n)
           | NoOutput \<Rightarrow> (normalize_timing_tokens_io empty_response latency, Suc n)
           | JsonObject r \<Rightarrow> (normalize_timing_tokens_io r latency, Suc n)
           | NotJson raw_out \<Rightarrow>
               (normalize_timing_tokens_io (empty_response\<lparr>resp_raw := Some raw_out\<rparr>) latency,
                Suc n)))"

text \<open>The row that the loop body of \<^verbatim>\<open>_run_suite\<close> builds from a prediction.\<close>

definition row_of_prediction ::
  "(string \<Rightarrow> string \<Rightarrow> bool) \<Rightarrow> EvalConfig \<Rightarrow> (string \<rightharpoonup> golden) \<Rightarrow> task \<Rightarrow> prediction \<Rightarrow> row" where
  "row_of_prediction re_search cfg goldens tsk pred =
     (let tid = t_id tsk;
          gold = lookup_golden goldens tid;
          evald = evaluate_task re_search tsk pred gold cfg;
          tok = get_or (pred_tokens pred) empty_tokens
      in \<lparr>row_task_id = tid,
          row_path_match = loc_path_match (ev_loc evald),
          row_line_iou_avg = loc_line_iou_avg (ev_loc evald),
          row_line_iou_min = loc_line_iou_min (ev_loc evald),
          row_symbol_match = loc_symbol_match (ev_loc evald),
          row_symbol_presence_rate = loc_symbol_presence_rate (ev_loc evald),
          row_faithful = faithful (ev_faith evald),
          row_faithfulness_reason = faithfulness_reason (ev_faith evald),
          row_label_primary = primary (ev_labels evald),
          row_label_secondary = py_join '','' (secondary (ev_labels evald)),
          row_latency_ms = get_or (tm_latency_ms (get_or (pred_timing pred) empty_timing)) 0,
          row_tokens_in = get_or (tok_in tok) 0,
          row_tokens_out = get_or (tok_out tok) 0,
          row_context_tokens = get_or (tok_context tok) 0,
          row_passed = ev_passed evald\<rparr>)"

text \<open>
  The loop body of \<^verbatim>\<open>_run_suite\<close> with its effects. \<^verbatim>\<open>_evaluate_task\<close> and the two
  metric functions read the answer with \<^verbatim>\<open>or {}\<close>; \<^verbatim>\<open>map_labels\<close> reads
  \<^verbatim>\<open>pred.get("answer", {}).get("paths", [])\<close>, which raises on an answer that is
  \<^verbatim>\<open>null\<close>.
\<close>

definition suite_row_io ::
  "(string \<Rightarrow> string \<Rightarrow> bool) \<Rightarrow> process \<Rightarrow> EvalConfig \<Rightarrow> (string \<rightharpoonup> golden) \<Rightarrow> task \<Rightarrow> nat
     \<Rightarrow> (py_exception + row) \<times> nat" where
  "suite_row_io re_search proc cfg goldens tsk n =
     (case call_sut_io proc tsk (timeout_s (sut_cli cfg)) (cmd (sut_cli cfg))
             (extra_args (sut_cli cfg)) n of
        (Inl e, m) \<Rightarrow> (Inl e, m)
      | (Inr resp, m) \<Rightarrow>
          if resp_answer resp = Null then (Inl AttributeError, m)
          else (Inr (row_of_prediction re_search cfg goldens tsk (prediction_of resp)), m))"


text \<open>
  The outcome, in the sense of \<open>call_sut\<close>, of a process that makes the invoker raise
  nothing before the response is normalized.
\<close>

fun outcome_of :: "proc_event \<Rightarrow> proc_outcome option" where
  "outcome_of (Raises name) = None"
| "outcome_of (Expires elapsed_ms) = Some (TimeoutExpired elapsed_ms)"
| "outcome_of (Exits NoOutput latency) = Some (Completed Blank latency)"
| "outcome_of (Exits (JsonObject r) latency) = Some (Completed (Decoded (prediction_of r)) latency)"
| "outcome_of (Exits JsonOther latency) = None"
| "outcome_of (Exits (NotJson raw_out) latency) = Some (Completed (Undecodable raw_out) latency)"


section \<open>Concrete inputs\<close>

text \<open>
  The end-to-end scenario of the specification: task \<^verbatim>\<open>T1\<close>, its golden, and a
  prediction that cites the golden file and quotes from it. The task names no symbol, so
  the regular-expression search is never consulted; \<open>never_matches\<close> stands in for it.
\<close>

definition never_matches :: "string \<Rightarrow> string \<Rightarrow> bool" where
  "never_matches symbol q = False"

definition task_T1 :: task where
  "task_T1 = \<lparr>t_id = Some ''T1'', t_workflow = Some ''w1_localization'', t_inputs = None,
     t_constraints = None,
     t_acceptance_criteria =
       Some \<lparr>acc_paths = [''a.c''], acc_line_ranges = [(10, 20)], acc_checklist = []\<rparr>,
     t_tags = None\<rparr>"

definition golden_T1 :: golden where
  "golden_T1 = empty_golden\<lparr>g_task_id := Some ''T1'', g_paths := Some [''a.c''],
     g_line_ranges := Some [(10, 20)], g_quotes := Some [''foo'']\<rparr>"

definition goldens_T1 :: "string \<rightharpoonup> golden" where
  "goldens_T1 = [''T1'' \<mapsto> golden_T1]"

definition citation_a :: citation where
  "citation_a = \<lparr>cit_path = Some ''a.c'', cit_start = Some 10, cit_end = Some 20\<rparr>"

definition prediction_T1 :: prediction where
  "prediction_T1 = empty_prediction\<lparr>
     pred_answer := Some \<lparr>ans_paths = Some [''a.c''], ans_line_ranges = Some [(12, 18)],
       ans_quotes = Some [''foo bar''], ans_rationale = None\<rparr>,
     pred_citations := Some [citation_a]\<rparr>"

text \<open>The same answer without line ranges, and a SUT that prints it after 1.2 seconds.\<close>

definition prediction_no_ranges :: prediction where
  "prediction_no_ranges = empty_prediction\<lparr>
     pred_answer := Some \<lparr>ans_paths = Some [''a.c''], ans_line_ranges = None,
       ans_quotes = Some [''foo bar''], ans_rationale = None\<rparr>,
     pred_citations := Some [citation_a]\<rparr>"

definition sut_no_ranges :: subprocess where
  "sut_no_ranges tsk cmd_line args timeout = Completed (Decoded prediction_no_ranges) 1200"





text \<open>The default configuration with the three \<^verbatim>\<open>required\<close> flags switched off.\<close>

definition config_no_flags :: EvalConfig where
  "config_no_flags = default_config\<lparr>thresholds :=
     \<lparr>w1 = \<lparr>path_match_required = False, line_iou_min = 6 / 10,
             require_symbol_match = False, faithfulness_required = False\<rparr>,
      canary = \<lparr>require_100_percent = True\<rparr>\<rparr>\<rparr>"

text \<open>
  Three canary tasks that share the golden of \<^verbatim>\<open>T1\<close>, and a SUT that answers the second
  one without line ranges.
\<close>

definition golden_for :: "string \<Rightarrow> golden" where
  "golden_for tid = golden_T1\<lparr>g_task_id := Some tid\<rparr>"

definition task_for :: "string \<Rightarrow> task" where
  "task_for tid = task_T1\<lparr>t_id := Some tid\<rparr>"

definition goldens_canary :: "string \<rightharpoonup> golden" where
  "goldens_canary =
     [''T1'' \<mapsto> golden_for ''T1'', ''T2'' \<mapsto> golden_for ''T2'', ''T3'' \<mapsto> golden_for ''T3'']"

definition sut_canary :: subprocess where
  "sut_canary tsk cmd_line args timeout =
     (if t_id tsk = Some ''T2'' then Completed (Decoded prediction_no_ranges) 1200
      else Completed (Decoded prediction_T1) 900)"

text \<open>The default configuration without the demand that every canary passes.\<close>

definition config_lenient :: EvalConfig where
  "config_lenient = default_config\<lparr>thresholds :=
     \<lparr>w1 = default_w1, canary = \<lparr>require_100_percent = False\<rparr>\<rparr>\<rparr>"

text \<open>
  Arguments for \<^verbatim>\<open>map_labels\<close>: a prediction that names another file, localization
  results with a minimum IoU of 0 and of 0.6, and the thresholds of the default
  configuration.
\<close>

definition prediction_other_path :: prediction where
  "prediction_other_path =
     empty_prediction\<lparr>pred_answer := Some (empty_answer\<lparr>ans_paths := Some [''b.c'']\<rparr>)\<rparr>"

definition localization_zero :: localization_dict where
  "localization_zero = \<lparr>d_line_iou_min = Some 0, d_symbol_match = Some 1\<rparr>"

definition localization_good :: localization_dict where
  "localization_good = \<lparr>d_line_iou_min = Some (6 / 10), d_symbol_match = Some 1\<rparr>"

definition faithfulness_ok :: faithfulness_dict where
  "faithfulness_ok = \<lparr>d_faithfulness_reason = Some ''ok''\<rparr>"

definition thresholds_default :: thresholds_dict where
  "thresholds_default = \<lparr>d_thr_line_iou_min = Some (6 / 10), d_p95_latency_ms = Some 5000,
     d_max_tokens_in = Some 20000, d_max_tokens_out = Some 4000,
     d_max_context_tokens = Some 50000\<rparr>"

text \<open>A source golden with a symbol, for the variant generator.\<close>

definition golden_src :: golden where
  "golden_src = golden_T1\<lparr>g_symbol := Some ''gdm_display''\<rparr>"

section \<open>The faithfulness decision as the specification words it\<close>

text \<open>
  The four rules in the words of the specification, for comparison with
  \<open>evaluate_faithfulness\<close>: the third rule asks for citations that exist and overlap the
  asserted paths, and for an answer without quotes.
\<close>

definition spec_faithfulness_reason :: "string list \<Rightarrow> string list \<Rightarrow> citation list \<Rightarrow> string" where
  "spec_faithfulness_reason paths quotes citations =
     (if citations = [] then ''cite_missing''
      else if paths \<noteq> [] \<and> set paths \<inter> c_paths citations = {} then ''cite_irrelevant''
      else if citations \<noteq> [] \<and> set paths \<inter> c_paths citations \<noteq> {} \<and> quotes = []
        then ''no_quotes''
      else ''ok'')"

section \<open>Properties\<close>

lemmas model_defs = evaluate_task_def evaluate_localization_def evaluate_faithfulness_def
  map_labels_def line_iou_scores_def best_iou_def path_match_all_only_def symbol_presence_def
  get_or_def empty_answer_def empty_inputs_def empty_golden_def empty_prediction_def
  default_config_def default_w1_def c_paths_def slo_labels_def thresholds_nonempty_def
  py_in_def sublist_code

lemmas suite_defs = suite_row_def call_sut_def normalize_timing_tokens_def lookup_golden_def
  empty_timing_def empty_tokens_def

lemma get_or_simps: "get_or None d = d" "get_or (Some x) d = x"
  by (simp_all add: get_or_def)

subsection \<open>Pairwise IoU\<close>

lemma iou_nonneg: "0 \<le> iou a b"
  by (cases a; cases b) (simp add: Let_def)

lemma iou_le_one: "iou a b \<le> 1"
  by (cases a; cases b) (auto simp add: Let_def divide_le_eq_1 max_def min_def split: if_splits)

lemma iou_commute: "iou a b = iou b a"
  by (cases a; cases b) (simp add: Let_def min.commute max.commute add.commute)

lemma iou_as_quotient:
  "iou a b = (if union_length a b > 0
              then of_int (intersection_length a b) / of_int (union_length a b) else 0)"
  by (cases a; cases b) (simp add: Let_def intersection_length_def union_length_def)

lemma union_length_nonneg: "0 \<le> union_length a b"
  by (cases a; cases b) (auto simp add: intersection_length_def union_length_def max_def min_def)

lemma iou_identical: "fst a < snd a \<Longrightarrow> iou a a = 1"
  by (cases a) (simp add: Let_def)

lemma iou_disjoint: "{fst a..<snd a} \<inter> {fst b..<snd b} = {} \<Longrightarrow> iou a b = 0"
proof (cases a; cases b)
  fix a_s a_e b_s b_e
  assume a: "a = (a_s, a_e)" and b: "b = (b_s, b_e)"
  assume "{fst a..<snd a} \<inter> {fst b..<snd b} = {}"
  then have d: "{a_s..<a_e} \<inter> {b_s..<b_e} = {}" using a b by simp
  have "min a_e b_e - max a_s b_s \<le> 0"
  proof (rule ccontr)
    assume "\<not> min a_e b_e - max a_s b_s \<le> 0"
    then have "max a_s b_s \<in> {a_s..<a_e} \<inter> {b_s..<b_e}" by auto
    with d show False by blast
  qed
  then have "max 0 (min a_e b_e - max a_s b_s) = 0" by simp
  then show "iou a b = 0" using a b by (simp add: Let_def)
qed

text \<open>
  Claim C5. For all integer line ranges \<open>a\<close> and \<open>b\<close>, the pairwise IoU is the
  intersection length over the union length, with the two lengths as the specification
  gives them, and 0 when the union length is 0 (it is never negative). It is symmetric,
  lies between 0 and 1, is 1 for identical non-empty ranges and 0 for disjoint ranges.
  A range \<open>(s, e)\<close> has length \<open>e - s\<close>, so it covers the lines from \<open>s\<close> up to but
  not including \<open>e\<close>, and two ranges are disjoint when they share no such line.
\<close>

theorem iou_properties:
  "iou a b = (if union_length a b > 0
              then of_int (intersection_length a b) / of_int (union_length a b) else 0)
   \<and> 0 \<le> union_length a b
   \<and> (union_length a b = 0 \<longrightarrow> iou a b = 0)
   \<and> iou a b = iou b a
   \<and> 0 \<le> iou a b \<and> iou a b \<le> 1
   \<and> (fst a < snd a \<longrightarrow> iou a a = 1)
   \<and> ({fst a..<snd a} \<inter> {fst b..<snd b} = {} \<longrightarrow> iou a b = 0)"
proof -
  have "union_length a b = 0 \<longrightarrow> iou a b = 0" by (simp add: iou_as_quotient)
  moreover have "iou a b = iou b a" by (rule iou_commute)
  moreover note iou_as_quotient [of a b] union_length_nonneg [of a b] iou_nonneg [of a b]
    iou_le_one [of a b]
  moreover have "fst a < snd a \<longrightarrow> iou a a = 1" by (simp add: iou_identical)
  moreover have "{fst a..<snd a} \<inter> {fst b..<snd b} = {} \<longrightarrow> iou a b = 0"
    by (simp add: iou_disjoint)
  ultimately show ?thesis by blast
qed

theorem iou_properties_witness:
  "iou (10, 20) (10, 20) = 1 \<and> iou (1, 5) (10, 15) = 0 \<and> iou (3, 3) (7, 7) = 0
   \<and> union_length (3, 3) (7, 7) = 0 \<and> iou (12, 18) (10, 20) = 6 / 10
   \<and> iou (10, 20) (12, 18) = 6 / 10"
  using iou_properties [of "(10, 20)" "(10, 20)"] iou_properties [of "(1, 5)" "(10, 15)"]
    iou_properties [of "(3, 3)" "(7, 7)"] iou_properties [of "(12, 18)" "(10, 20)"]
  by (simp add: union_length_def intersection_length_def)

subsection \<open>Line-range scores\<close>

lemma fold_max_Max: "fold (\<lambda>g best. max best (f g)) gs b0 = Max (insert b0 (f ` set gs))"
proof (induction gs arbitrary: b0)
  case Nil
  show ?case by simp
next
  case (Cons g gs)
  have "Max (insert (max b0 (f g)) (f ` set gs)) = Max (insert b0 (insert (f g) (f ` set gs)))"
  proof (cases "f ` set gs = {}")
    case True
    then show ?thesis by (simp add: max.commute)
  next
    case False
    then show ?thesis by (simp add: max.assoc)
  qed
  with Cons show ?case by simp
qed

lemma best_iou_Max:
  assumes "gs \<noteq> []"
  shows "best_iou p gs = Max (iou p ` set gs)"
proof -
  have "best_iou p gs = Max (insert 0 (iou p ` set gs))"
    unfolding best_iou_def by (rule fold_max_Max)
  also have "\<dots> = max 0 (Max (iou p ` set gs))"
    using assms by simp
  also have "\<dots> = Max (iou p ` set gs)"
  proof -
    obtain g where "g \<in> set gs" using assms by (cases gs) auto
    then have "iou p g \<le> Max (iou p ` set gs)" by simp
    with iou_nonneg [of p g] show ?thesis by (simp add: max_def)
  qed
  finally show ?thesis .
qed

lemma best_iou_nonneg: "0 \<le> best_iou p gs"
proof -
  have "best_iou p gs = Max (insert 0 (iou p ` set gs))"
    unfolding best_iou_def by (rule fold_max_Max)
  then show ?thesis by simp
qed

lemma py_min_Min: "xs \<noteq> [] \<Longrightarrow> py_min xs = Some (Min (set xs))"
  by (cases xs) (simp_all only: py_min.simps Min.set_eq_fold)

lemma line_iou_scores_min_nonneg: "0 \<le> mn (line_iou_scores ps gs)"
proof (cases "ps = [] \<or> gs = []")
  case True
  then show ?thesis by (auto simp add: line_iou_scores_def)
next
  case False
  then have ne: "map (\<lambda>p. best_iou p gs) ps \<noteq> []" by simp
  have "mn (line_iou_scores ps gs) = Min (set (map (\<lambda>p. best_iou p gs) ps))"
    using False ne by (simp add: line_iou_scores_def Let_def py_min_Min get_or_def)
  moreover have "0 \<le> Min (set (map (\<lambda>p. best_iou p gs) ps))"
    using ne by (auto simp add: best_iou_nonneg)
  ultimately show ?thesis by simp
qed

text \<open>
  Claim C6. When either the predicted or the golden range list is empty, \<open>avg\<close> and
  \<open>min\<close> are 0. Otherwise the score of each predicted range is the maximum of its IoU
  against the golden ranges, \<open>avg\<close> is the arithmetic mean of these scores and \<open>min\<close>
  their minimum.
\<close>

theorem line_iou_scores_aggregates:
  "(pred_line_ranges = [] \<or> golden_line_ranges = [] \<longrightarrow>
      avg (line_iou_scores pred_line_ranges golden_line_ranges) = 0
    \<and> mn (line_iou_scores pred_line_ranges golden_line_ranges) = 0)
   \<and> (pred_line_ranges \<noteq> [] \<and> golden_line_ranges \<noteq> [] \<longrightarrow>
        per_pair (line_iou_scores pred_line_ranges golden_line_ranges) =
          map (\<lambda>p. Max (iou p ` set golden_line_ranges)) pred_line_ranges
      \<and> avg (line_iou_scores pred_line_ranges golden_line_ranges) =
          sum_list (per_pair (line_iou_scores pred_line_ranges golden_line_ranges))
            / of_nat (length pred_line_ranges)
      \<and> mn (line_iou_scores pred_line_ranges golden_line_ranges) =
          Min (set (per_pair (line_iou_scores pred_line_ranges golden_line_ranges))))"
proof (cases "pred_line_ranges = [] \<or> golden_line_ranges = []")
  case True
  then show ?thesis by (auto simp add: line_iou_scores_def)
next
  case False
  then have ne: "map (\<lambda>p. best_iou p golden_line_ranges) pred_line_ranges \<noteq> []" by simp
  have pp: "per_pair (line_iou_scores pred_line_ranges golden_line_ranges) =
      map (\<lambda>p. Max (iou p ` set golden_line_ranges)) pred_line_ranges"
    using False by (simp add: line_iou_scores_def Let_def best_iou_Max)
  have av: "avg (line_iou_scores pred_line_ranges golden_line_ranges) =
      sum_list (per_pair (line_iou_scores pred_line_ranges golden_line_ranges))
        / of_nat (length pred_line_ranges)"
    using False by (simp add: line_iou_scores_def Let_def)
  have mi: "mn (line_iou_scores pred_line_ranges golden_line_ranges) =
      Min (set (per_pair (line_iou_scores pred_line_ranges golden_line_ranges)))"
    using False ne by (simp add: line_iou_scores_def Let_def py_min_Min get_or_def)
  from False pp av mi show ?thesis by blast
qed

theorem line_iou_scores_aggregates_witness:
  "avg (line_iou_scores [] [(10, 20)]) = 0 \<and> mn (line_iou_scores [(12, 18)] []) = 0
   \<and> per_pair (line_iou_scores [(12, 18), (30, 40)] [(10, 20), (35, 45)]) = [6 / 10, 1 / 3]
   \<and> avg (line_iou_scores [(12, 18), (30, 40)] [(10, 20), (35, 45)]) = 7 / 15
   \<and> mn (line_iou_scores [(12, 18), (30, 40)] [(10, 20), (35, 45)]) = 1 / 3"
  using line_iou_scores_aggregates [of "[]" "[(10, 20)]"]
    line_iou_scores_aggregates [of "[(12, 18)]" "[]"]
    line_iou_scores_aggregates [of "[(12, 18), (30, 40)]" "[(10, 20), (35, 45)]"]
  by (simp add: line_iou_scores_def best_iou_def get_or_def Let_def)

subsection \<open>Faithfulness\<close>

text \<open>
  Claim C4, as the code has it. The reason is the first of the chain: no citations gives
  \<^verbatim>\<open>cite_missing\<close>; asserted paths of which none is a cited path give
  \<^verbatim>\<open>cite_irrelevant\<close>; an answer without quotes gives \<^verbatim>\<open>no_quotes\<close>, also when it
  asserts no path at all; otherwise \<^verbatim>\<open>ok\<close>. The verdict is 1 exactly when the reason is
  \<^verbatim>\<open>ok\<close>, and 0 otherwise. The code agrees with the wording of the specification
  everywhere but on an answer with citations, without paths and without quotes.
\<close>

theorem evaluate_faithfulness_chain:
  "faithfulness_reason (evaluate_faithfulness ans citations) =
     (if citations = [] then ''cite_missing''
      else if get_or (ans_paths ans) [] \<noteq> [] \<and>
              set (get_or (ans_paths ans) []) \<inter> c_paths citations = {} then ''cite_irrelevant''
      else if get_or (ans_quotes ans) [] = [] then ''no_quotes''
      else ''ok'')
   \<and> (faithful (evaluate_faithfulness ans citations) = 1 \<longleftrightarrow>
        faithfulness_reason (evaluate_faithfulness ans citations) = ''ok'')
   \<and> (faithful (evaluate_faithfulness ans citations) = 0 \<longleftrightarrow>
        faithfulness_reason (evaluate_faithfulness ans citations) \<noteq> ''ok'')
   \<and> (faithfulness_reason (evaluate_faithfulness ans citations) =
        spec_faithfulness_reason (get_or (ans_paths ans) []) (get_or (ans_quotes ans) []) citations
      \<longleftrightarrow> \<not> (citations \<noteq> [] \<and> get_or (ans_paths ans) [] = [] \<and> get_or (ans_quotes ans) [] = []))"
  by (auto simp add: evaluate_faithfulness_def spec_faithfulness_reason_def Let_def
      REASON_OK_def REASON_CITE_MISSING_def REASON_CITE_IRRELEVANT_def REASON_NO_QUOTES_def)

theorem evaluate_faithfulness_chain_witness:
  "faithfulness_reason
     (evaluate_faithfulness (get_or (pred_answer prediction_T1) empty_answer) [citation_a]) = ''ok''
   \<and> faithful
       (evaluate_faithfulness (get_or (pred_answer prediction_T1) empty_answer) [citation_a]) = 1
   \<and> faithfulness_reason
       (evaluate_faithfulness (get_or (pred_answer prediction_T1) empty_answer) []) = ''cite_missing''"
  using evaluate_faithfulness_chain [of "get_or (pred_answer prediction_T1) empty_answer" "[citation_a]"]
    evaluate_faithfulness_chain [of "get_or (pred_answer prediction_T1) empty_answer" "[]"]
  by (simp add: prediction_T1_def empty_prediction_def get_or_def c_paths_def citation_a_def)

text \<open>
  An answer that asserts no path and quotes nothing, with one citation: no rule of the
  specification's wording applies, so it reads \<^verbatim>\<open>ok\<close>; the code answers
  \<^verbatim>\<open>no_quotes\<close> and the verdict is 0.
\<close>

theorem faithfulness_no_paths_counterexample:
  "faithfulness_reason (evaluate_faithfulness empty_answer [citation_a]) = ''no_quotes''
   \<and> faithful (evaluate_faithfulness empty_answer [citation_a]) = 0
   \<and> spec_faithfulness_reason [] [] [citation_a] = ''ok''"
  by (simp add: evaluate_faithfulness_def spec_faithfulness_reason_def empty_answer_def
      citation_a_def get_or_def c_paths_def REASON_NO_QUOTES_def Let_def)

subsection \<open>Pass or fail of one task\<close>

text \<open>
  Claim C1, as the code has it. \<open>passed\<close> is 1 exactly when the four checks hold, and 0
  otherwise. The path, symbol and faithfulness checks are each gated by their own
  \<^verbatim>\<open>required\<close> flag. The line-IoU check has no flag: it compares the minimum IoU with
  the threshold \<^verbatim>\<open>line_iou_min\<close> in every configuration; the minimum IoU is never
  negative, so only a threshold of 0 or less switches this check off.
\<close>

theorem evaluate_task_passed:
  "ev_passed (evaluate_task re_search tsk pred gold cfg) =
     (if (path_match_required (w1 (thresholds cfg)) \<longrightarrow>
            loc_path_match (ev_loc (evaluate_task re_search tsk pred gold cfg)) = 1)
       \<and> line_iou_min (w1 (thresholds cfg)) \<le>
            loc_line_iou_min (ev_loc (evaluate_task re_search tsk pred gold cfg))
       \<and> (require_symbol_match (w1 (thresholds cfg)) \<longrightarrow>
            loc_symbol_match (ev_loc (evaluate_task re_search tsk pred gold cfg)) = 1)
       \<and> (faithfulness_required (w1 (thresholds cfg)) \<longrightarrow>
            faithful (ev_faith (evaluate_task re_search tsk pred gold cfg)) = 1)
      then 1 else 0)
   \<and> 0 \<le> loc_line_iou_min (ev_loc (evaluate_task re_search tsk pred gold cfg))
   \<and> ev_loc (evaluate_task re_search tsk pred gold cfg) =
       evaluate_localization re_search (get_or (pred_answer pred) empty_answer) gold
         (get_or (t_inputs tsk) empty_inputs)
   \<and> ev_faith (evaluate_task re_search tsk pred gold cfg) =
       evaluate_faithfulness (get_or (pred_answer pred) empty_answer)
         (get_or (pred_citations pred) [])"
  by (simp add: evaluate_task_def evaluate_localization_def Let_def not_less
      line_iou_scores_min_nonneg)

theorem evaluate_task_passed_witness:
  "ev_passed (evaluate_task never_matches task_T1 prediction_T1 golden_T1 default_config) = 1"
  using evaluate_task_passed [of never_matches task_T1 prediction_T1 golden_T1 default_config]
  by (simp add: model_defs task_T1_def prediction_T1_def golden_T1_def citation_a_def Let_def)

text \<open>
  With no check flagged as required, the empty prediction still fails task \<^verbatim>\<open>T1\<close>: its
  minimum IoU is 0, below the threshold 0.6.
\<close>

theorem evaluate_task_unflagged_counterexample:
  "\<not> path_match_required (w1 (thresholds config_no_flags))
   \<and> \<not> require_symbol_match (w1 (thresholds config_no_flags))
   \<and> \<not> faithfulness_required (w1 (thresholds config_no_flags))
   \<and> ev_passed (evaluate_task never_matches task_T1 empty_prediction golden_T1 config_no_flags) = 0"
  by (simp add: model_defs config_no_flags_def task_T1_def golden_T1_def Let_def)

subsection \<open>Accuracy of a run\<close>

lemma row_no_ranges:
  "run_suite never_matches sut_no_ranges default_config goldens_T1 [task_T1] =
     [\<lparr>row_task_id = Some ''T1'', row_path_match = 1, row_line_iou_avg = 0, row_line_iou_min = 0,
       row_symbol_match = 1, row_symbol_presence_rate = 1, row_faithful = 1,
       row_faithfulness_reason = ''ok'', row_label_primary = ''wrong_line'',
       row_label_secondary = [], row_latency_ms = 1200, row_tokens_in = 0, row_tokens_out = 0,
       row_context_tokens = 0, row_passed = 0\<rparr>]"
  by (simp add: suite_defs model_defs sut_no_ranges_def goldens_T1_def task_T1_def golden_T1_def
      prediction_no_ranges_def citation_a_def Let_def REASON_OK_def LABEL_WRONG_LINE_def)

text \<open>
  Claim C2. The accuracy of a run is the fraction of its rows with \<^verbatim>\<open>path_match == 1\<close>
  and \<^verbatim>\<open>faithful == 1\<close>. The summary that \<^verbatim>\<open>main\<close> persists does not hold this
  number, while \<^verbatim>\<open>_print_cli_summary\<close> prints it for the same rows. The run below has
  one task under the default configuration; the prediction has the golden path, a
  citation of it and a quote, and no line ranges. Its one row has \<^verbatim>\<open>path_match = 1\<close>
  and \<^verbatim>\<open>faithful = 1\<close> and did not pass. The persisted \<^verbatim>\<open>accuracy_localization\<close>
  is 0, the printed accuracy is 1.
\<close>

theorem summary_accuracy_divergence:
  "run_suite never_matches sut_no_ranges default_config goldens_T1 [task_T1] =
     [\<lparr>row_task_id = Some ''T1'', row_path_match = 1, row_line_iou_avg = 0, row_line_iou_min = 0,
       row_symbol_match = 1, row_symbol_presence_rate = 1, row_faithful = 1,
       row_faithfulness_reason = ''ok'', row_label_primary = ''wrong_line'',
       row_label_secondary = [], row_latency_ms = 1200, row_tokens_in = 0, row_tokens_out = 0,
       row_context_tokens = 0, row_passed = 0\<rparr>]
   \<and> accuracy_localization
       (run_summary (run_suite never_matches sut_no_ranges default_config goldens_T1 [task_T1]) 0) = 0
   \<and> cli_summary_accuracy
       (run_suite never_matches sut_no_ranges default_config goldens_T1 [task_T1]) = Some 1"
  unfolding row_no_ranges
  by (simp add: run_summary_def cli_summary_accuracy_def count_rows_def
      row_is_passed_def path_match_and_faithful_def Let_def)

subsection \<open>Timeout of the SUT\<close>

lemma length_run_suite: "length (run_suite re_search sp cfg goldens tasks) = length tasks"
  by (induction tasks) simp_all

lemma ids_run_suite: "map row_task_id (run_suite re_search sp cfg goldens tasks) = map t_id tasks"
  by (induction tasks) (simp_all add: suite_row_def Let_def)

text \<open>
  Where nothing is raised, the functions with effects return what the functions without
  them return on the outcome of the one process they start.
\<close>

lemma suite_row_as_row_of_prediction:
  "suite_row re_search sp cfg goldens tsk =
     row_of_prediction re_search cfg goldens tsk
       (call_sut sp tsk (timeout_s (sut_cli cfg)) (cmd (sut_cli cfg)) (extra_args (sut_cli cfg)))"
  by (simp add: suite_row_def row_of_prediction_def Let_def)

lemma normalize_io_cases:
  "(case normalize_timing_tokens_io r fb of
      Inl e \<Rightarrow> resp_timing r = Null \<or> resp_tokens r = Null
    | Inr r' \<Rightarrow> resp_timing r \<noteq> Null \<and> resp_tokens r \<noteq> Null
        \<and> prediction_of r' = normalize_timing_tokens (prediction_of r) fb)"
  by (cases "resp_timing r"; cases "resp_tokens r")
     (simp_all add: normalize_timing_tokens_io_def normalize_timing_tokens_def prediction_of_def
       slot_get_def Let_def)

lemma normalize_io_agrees:
  "normalize_timing_tokens_io r fb = Inr r' \<Longrightarrow>
     prediction_of r' = normalize_timing_tokens (prediction_of r) fb"
  using normalize_io_cases [of r fb] by simp

lemma prediction_of_empty: "prediction_of empty_response = empty_prediction"
  by (simp add: prediction_of_def empty_response_def empty_prediction_def slot_get_def)

lemma call_sut_io_counts: "snd (call_sut_io proc tsk timeout cmd_line args n) = Suc n"
  by (simp add: call_sut_io_def split: proc_event.splits exit_output.splits)

lemma call_sut_io_agrees:
  assumes "call_sut_io proc tsk timeout cmd_line args n = (Inr r, m)"
  shows "\<exists>out. outcome_of (proc n tsk cmd_line args timeout) = Some out
           \<and> prediction_of r = call_sut (\<lambda>t c a s. out) tsk timeout cmd_line args"
proof (cases "proc n tsk cmd_line args timeout")
  case (Raises name)
  with assms show ?thesis by (simp add: call_sut_io_def)
next
  case (Expires elapsed_ms)
  with assms have "normalize_timing_tokens_io (empty_response\<lparr>resp_error := Some ''timeout''\<rparr>) elapsed_ms = Inr r"
    by (simp add: call_sut_io_def)
  then have "prediction_of r =
      normalize_timing_tokens (prediction_of (empty_response\<lparr>resp_error := Some ''timeout''\<rparr>)) elapsed_ms"
    by (rule normalize_io_agrees)
  moreover have "prediction_of (empty_response\<lparr>resp_error := Some ''timeout''\<rparr>) =
      empty_prediction\<lparr>pred_error := Some ''timeout''\<rparr>"
    by (simp add: prediction_of_def empty_response_def empty_prediction_def slot_get_def)
  ultimately show ?thesis using Expires by (simp add: call_sut_def)
next
  case (Exits out latency)
  show ?thesis
  proof (cases out)
    case NoOutput
    with assms Exits have "normalize_timing_tokens_io empty_response latency = Inr r"
      by (simp add: call_sut_io_def)
    then have "prediction_of r = normalize_timing_tokens (prediction_of empty_response) latency"
      by (rule normalize_io_agrees)
    with Exits NoOutput show ?thesis by (simp add: call_sut_def prediction_of_empty)
  next
    case (JsonObject r0)
    with assms Exits have "normalize_timing_tokens_io r0 latency = Inr r"
      by (simp add: call_sut_io_def)
    then have "prediction_of r = normalize_timing_tokens (prediction_of r0) latency"
      by (rule normalize_io_agrees)
    with Exits JsonObject show ?thesis by (simp add: call_sut_def)
  next
    case JsonOther
    with assms Exits show ?thesis by (simp add: call_sut_io_def)
  next
    case (NotJson raw_out)
    with assms Exits have "normalize_timing_tokens_io (empty_response\<lparr>resp_raw := Some raw_out\<rparr>) latency = Inr r"
      by (simp add: call_sut_io_def)
    then have "prediction_of r =
        normalize_timing_tokens (prediction_of (empty_response\<lparr>resp_raw := Some raw_out\<rparr>)) latency"
      by (rule normalize_io_agrees)
    moreover have "prediction_of (empty_response\<lparr>resp_raw := Some raw_out\<rparr>) =
        empty_prediction\<lparr>pred_raw := Some raw_out\<rparr>"
      by (simp add: prediction_of_def empty_response_def empty_prediction_def slot_get_def)
    ultimately show ?thesis using Exits NotJson by (simp add: call_sut_def)
  qed
qed

lemma suite_row_io_agrees:
  assumes "suite_row_io re_search proc cfg goldens tsk n = (Inr r, m)"
  shows "\<exists>out. outcome_of (proc n tsk (cmd (sut_cli cfg)) (extra_args (sut_cli cfg))
                     (timeout_s (sut_cli cfg))) = Some out
           \<and> r = suite_row re_search (\<lambda>t c a s. out) cfg goldens tsk"
proof (cases "call_sut_io proc tsk (timeout_s (sut_cli cfg)) (cmd (sut_cli cfg))
                (extra_args (sut_cli cfg)) n")
  case (Pair res k)
  show ?thesis
  proof (cases res)
    case (Inl e)
    with Pair assms show ?thesis by (simp add: suite_row_io_def)
  next
    case (Inr resp)
    with Pair assms have r: "r = row_of_prediction re_search cfg goldens tsk (prediction_of resp)"
      by (simp add: suite_row_io_def split: if_splits)
    from Pair Inr obtain out where
      out: "outcome_of (proc n tsk (cmd (sut_cli cfg)) (extra_args (sut_cli cfg))
              (timeout_s (sut_cli cfg))) = Some out"
        "prediction_of resp = call_sut (\<lambda>t c a s. out) tsk (timeout_s (sut_cli cfg))
              (cmd (sut_cli cfg)) (extra_args (sut_cli cfg))"
      using call_sut_io_agrees [of proc tsk "timeout_s (sut_cli cfg)" "cmd (sut_cli cfg)"
          "extra_args (sut_cli cfg)" n resp k] by auto
    with r show ?thesis by (simp add: suite_row_as_row_of_prediction)
  qed
qed









subsection \<open>Labels\<close>

text \<open>
  Claim C7. The primary label of \<^verbatim>\<open>map_labels\<close> is set by the first rule that fires:
  no predicted path gives \<^verbatim>\<open>missing_path\<close>; golden paths present and a different
  predicted path set give \<^verbatim>\<open>wrong_path\<close>; a minimum IoU below the threshold gives
  \<^verbatim>\<open>wrong_line\<close>; when no rule fires the label is \<^verbatim>\<open>ok\<close> if the golden has paths and
  \<^verbatim>\<open>missing_path\<close> otherwise. The first two rules decide whatever the IoU is: a later
  rule that fires as well leaves the label alone. (A localization result without
  \<^verbatim>\<open>line_iou_min\<close> counts as 1.0, thresholds without it as 0.6.)
\<close>

theorem map_labels_primary:
  "primary (map_labels pred gold loc faith thr) =
     (if get_or (ans_paths (get_or (pred_answer pred) empty_answer)) [] = [] then ''missing_path''
      else if get_or (g_paths gold) [] \<noteq> [] \<and>
              set (get_or (ans_paths (get_or (pred_answer pred) empty_answer)) []) \<noteq>
                set (get_or (g_paths gold) []) then ''wrong_path''
      else if get_or (d_line_iou_min loc) 1 <
              get_or (d_thr_line_iou_min thr) (6 / 10) then ''wrong_line''
      else if get_or (g_paths gold) [] \<noteq> [] then ''ok''
      else ''missing_path'')
   \<and> (get_or (ans_paths (get_or (pred_answer pred) empty_answer)) [] = [] \<longrightarrow>
        primary (map_labels pred gold loc faith thr) = ''missing_path'')
   \<and> (get_or (ans_paths (get_or (pred_answer pred) empty_answer)) [] \<noteq> [] \<and>
      get_or (g_paths gold) [] \<noteq> [] \<and>
      set (get_or (ans_paths (get_or (pred_answer pred) empty_answer)) []) \<noteq>
        set (get_or (g_paths gold) []) \<longrightarrow>
        primary (map_labels pred gold loc faith thr) = ''wrong_path'')"
  by (auto simp add: map_labels_def Let_def get_or_simps LABEL_MISSING_PATH_def LABEL_WRONG_PATH_def
      LABEL_WRONG_LINE_def LABEL_OK_def)

theorem map_labels_primary_witness:
  "primary (map_labels prediction_T1 golden_T1 localization_good faithfulness_ok thresholds_default)
     = ''ok''
   \<and> primary (map_labels empty_prediction golden_T1 localization_zero faithfulness_ok
        thresholds_default) = ''missing_path''
   \<and> primary (map_labels prediction_other_path golden_T1 localization_zero faithfulness_ok
        thresholds_default) = ''wrong_path''
   \<and> primary (map_labels prediction_no_ranges golden_T1 localization_zero faithfulness_ok
        thresholds_default) = ''wrong_line''
   \<and> primary (map_labels prediction_T1 empty_golden localization_good faithfulness_ok
        thresholds_default) = ''missing_path''
   \<and> primary (ev_labels (evaluate_task never_matches task_T1 prediction_T1 golden_T1 default_config))
     = ''ok''"
  using map_labels_primary [of prediction_T1 golden_T1 localization_good faithfulness_ok
      thresholds_default]
    map_labels_primary [of empty_prediction golden_T1 localization_zero faithfulness_ok
      thresholds_default]
    map_labels_primary [of prediction_other_path golden_T1 localization_zero faithfulness_ok
      thresholds_default]
    map_labels_primary [of prediction_no_ranges golden_T1 localization_zero faithfulness_ok
      thresholds_default]
    map_labels_primary [of prediction_T1 empty_golden localization_good faithfulness_ok
      thresholds_default]
  by (simp add: model_defs task_T1_def prediction_T1_def golden_T1_def citation_a_def
      prediction_no_ranges_def prediction_other_path_def localization_zero_def
      localization_good_def faithfulness_ok_def thresholds_default_def Let_def LABEL_OK_def
      LABEL_MISSING_PATH_def)

subsection \<open>Canary gate\<close>

lemma canary_failures_filter:
  "canary_failures cfg rows = map (failure_line cfg) (filter (\<lambda>r. canary_checks cfg r \<noteq> []) rows)"
  by (induction rows) simp_all

lemma canary_failures_empty:
  "canary_failures cfg rows \<noteq> [] \<longleftrightarrow> (\<exists>r \<in> set rows. canary_checks cfg r \<noteq> [])"
  by (induction rows) auto

text \<open>
  Claim C8. For a canary row, each of the four checks is reported exactly when it fails:
  path match and symbol match and faithfulness when they are required, the minimum line
  IoU against the threshold. A row fails when one of them does. With
  \<^verbatim>\<open>require_100_percent\<close> the gate returns 1 exactly when some canary row fails, and 0
  otherwise; without it the gate returns 0. A failing gate prints, after its heading, one
  line for every failing row, in order, with the task id and the checks that failed.
\<close>

theorem canary_gate_verdict:
  "(''path_match'' \<in> set (canary_checks cfg r) \<longleftrightarrow>
      path_match_required (w1 (thresholds cfg)) \<and> row_path_match r \<noteq> 1)
   \<and> (''line_iou_min'' \<in> set (canary_checks cfg r) \<longleftrightarrow>
      row_line_iou_min r < line_iou_min (w1 (thresholds cfg)))
   \<and> (''symbol_match'' \<in> set (canary_checks cfg r) \<longleftrightarrow>
      require_symbol_match (w1 (thresholds cfg)) \<and> row_symbol_match r \<noteq> 1)
   \<and> (''faithful'' \<in> set (canary_checks cfg r) \<longleftrightarrow>
      faithfulness_required (w1 (thresholds cfg)) \<and> row_faithful r \<noteq> 1)
   \<and> (canary_checks cfg r \<noteq> [] \<longleftrightarrow>
        (path_match_required (w1 (thresholds cfg)) \<and> row_path_match r \<noteq> 1)
      \<or> row_line_iou_min r < line_iou_min (w1 (thresholds cfg))
      \<or> (require_symbol_match (w1 (thresholds cfg)) \<and> row_symbol_match r \<noteq> 1)
      \<or> (faithfulness_required (w1 (thresholds cfg)) \<and> row_faithful r \<noteq> 1))
   \<and> (require_100_percent (canary (thresholds cfg)) \<longrightarrow>
        (snd (assert_canary_gate re_search sp cfg goldens tasks) = 1 \<longleftrightarrow>
           (\<exists>x \<in> set (run_suite re_search sp cfg goldens tasks). canary_checks cfg x \<noteq> []))
      \<and> (snd (assert_canary_gate re_search sp cfg goldens tasks) = 0 \<longleftrightarrow>
           \<not> (\<exists>x \<in> set (run_suite re_search sp cfg goldens tasks). canary_checks cfg x \<noteq> [])))
   \<and> (\<not> require_100_percent (canary (thresholds cfg)) \<longrightarrow>
        snd (assert_canary_gate re_search sp cfg goldens tasks) = 0)
   \<and> (snd (assert_canary_gate re_search sp cfg goldens tasks) = 1 \<longrightarrow>
        fst (assert_canary_gate re_search sp cfg goldens tasks) =
          [Line ''Running W1 canary gate...'',
           CanariesLine (length tasks) (line_iou_min (w1 (thresholds cfg))),
           Line ''Canary gate FAILED:'']
          @ map (\<lambda>x. Line (''- '' @ str_of_id (row_task_id x) @ '': fail(''
                          @ py_join '','' (canary_checks cfg x) @ '')''))
              (filter (\<lambda>x. canary_checks cfg x \<noteq> []) (run_suite re_search sp cfg goldens tasks)))"
proof -
  have checks: "(''path_match'' \<in> set (canary_checks cfg r) \<longleftrightarrow>
      path_match_required (w1 (thresholds cfg)) \<and> row_path_match r \<noteq> 1)
   \<and> (''line_iou_min'' \<in> set (canary_checks cfg r) \<longleftrightarrow>
      row_line_iou_min r < line_iou_min (w1 (thresholds cfg)))
   \<and> (''symbol_match'' \<in> set (canary_checks cfg r) \<longleftrightarrow>
      require_symbol_match (w1 (thresholds cfg)) \<and> row_symbol_match r \<noteq> 1)
   \<and> (''faithful'' \<in> set (canary_checks cfg r) \<longleftrightarrow>
      faithfulness_required (w1 (thresholds cfg)) \<and> row_faithful r \<noteq> 1)"
    by (simp add: canary_checks_def)
  have any: "canary_checks cfg r \<noteq> [] \<longleftrightarrow>
        (path_match_required (w1 (thresholds cfg)) \<and> row_path_match r \<noteq> 1)
      \<or> row_line_iou_min r < line_iou_min (w1 (thresholds cfg))
      \<or> (require_symbol_match (w1 (thresholds cfg)) \<and> row_symbol_match r \<noteq> 1)
      \<or> (faithfulness_required (w1 (thresholds cfg)) \<and> row_faithful r \<noteq> 1)"
    by (auto simp add: canary_checks_def)
  let ?rows = "run_suite re_search sp cfg goldens tasks"
  have code: "snd (assert_canary_gate re_search sp cfg goldens tasks) =
      (if require_100_percent (canary (thresholds cfg)) \<and> (\<exists>x \<in> set ?rows. canary_checks cfg x \<noteq> [])
       then 1 else 0)"
    by (simp add: assert_canary_gate_def canary_gate_def Let_def canary_failures_empty)
  have out: "snd (assert_canary_gate re_search sp cfg goldens tasks) = 1 \<longrightarrow>
        fst (assert_canary_gate re_search sp cfg goldens tasks) =
          [Line ''Running W1 canary gate...'',
           CanariesLine (length tasks) (line_iou_min (w1 (thresholds cfg))),
           Line ''Canary gate FAILED:'']
          @ map (\<lambda>x. Line (''- '' @ str_of_id (row_task_id x) @ '': fail(''
                          @ py_join '','' (canary_checks cfg x) @ '')''))
              (filter (\<lambda>x. canary_checks cfg x \<noteq> []) ?rows)"
    by (simp add: assert_canary_gate_def canary_gate_def Let_def canary_failures_filter
        failure_line_def length_run_suite comp_def)
  from checks any code out show ?thesis by simp
qed

theorem canary_gate_verdict_witness:
  "assert_canary_gate never_matches sut_canary default_config goldens_canary
     [task_for ''T1'', task_for ''T2'', task_for ''T3''] =
     ([Line ''Running W1 canary gate...'', CanariesLine 3 (6 / 10), Line ''Canary gate FAILED:'',
       Line ''- T2: fail(line_iou_min)''], 1)
   \<and> assert_canary_gate never_matches sut_canary config_lenient goldens_canary
     [task_for ''T1'', task_for ''T2'', task_for ''T3''] =
     ([Line ''Running W1 canary gate...'', CanariesLine 3 (6 / 10), Line ''Canary gate PASSED''], 0)"
proof -
  let ?T2 = "suite_row never_matches sut_canary default_config goldens_canary (task_for ''T2'')"
  let ?tasks = "[task_for ''T1'', task_for ''T2'', task_for ''T3'']"
  have strict: "assert_canary_gate never_matches sut_canary default_config goldens_canary ?tasks =
     ([Line ''Running W1 canary gate...'', CanariesLine 3 (6 / 10), Line ''Canary gate FAILED:'',
       Line ''- T2: fail(line_iou_min)''], 1)"
    by code_simp
  have lenient: "assert_canary_gate never_matches sut_canary config_lenient goldens_canary ?tasks =
     ([Line ''Running W1 canary gate...'', CanariesLine 3 (6 / 10), Line ''Canary gate PASSED''], 0)"
    by code_simp
  have flags: "require_100_percent (canary (thresholds default_config))"
    "\<not> require_100_percent (canary (thresholds config_lenient))"
    by (simp_all add: default_config_def config_lenient_def)
  have T2: "canary_checks default_config ?T2 = [''line_iou_min'']"
    by code_simp
  have "snd (assert_canary_gate never_matches sut_canary default_config goldens_canary ?tasks) = 1"
    using canary_gate_verdict [of default_config ?T2 never_matches sut_canary goldens_canary ?tasks]
      flags(1) T2 by auto
  moreover
  have "snd (assert_canary_gate never_matches sut_canary config_lenient goldens_canary ?tasks) = 0"
    using canary_gate_verdict [of config_lenient ?T2 never_matches sut_canary goldens_canary ?tasks]
      flags(2) by blast
  ultimately show ?thesis using strict lenient by simp
qed

subsection \<open>Change impact without required anchors\<close>

text \<open>
  Claim C10. When the golden of a task has no required anchors, \<^verbatim>\<open>anchor_coverage\<close>
  and \<^verbatim>\<open>anchor_faithful_rate\<close> are 0, and the verdict \<^verbatim>\<open>faithful_overall\<close> of the
  task is 0, in the deterministic core and in the row of the task.
\<close>

theorem no_required_anchors_never_faithful:
  assumes "get_or (g_required_anchors gold) [] = []"
  shows "anchors_required (deterministic_core tsk pred gold cfg) = 0
     \<and> anchor_coverage (deterministic_core tsk pred gold cfg) = 0
     \<and> anchor_faithful_rate (deterministic_core tsk pred gold cfg) = 0
     \<and> faithful_overall cfg (deterministic_core tsk pred gold cfg) = 0
     \<and> (lookup_golden goldens (t_id tsk) = gold \<longrightarrow>
          w2_anchor_coverage (w2_row_of sp cfg goldens tsk) = 0
        \<and> w2_anchor_faithful_rate (w2_row_of sp cfg goldens tsk) = 0
        \<and> w2_faithful_overall (w2_row_of sp cfg goldens tsk) = 0)"
proof -
  have core: "\<And>p. anchors_required (deterministic_core tsk p gold cfg) = 0
     \<and> anchor_coverage (deterministic_core tsk p gold cfg) = 0
     \<and> anchor_faithful_rate (deterministic_core tsk p gold cfg) = 0"
    using assms by (simp add: deterministic_core_def Let_def)
  then have overall: "\<And>p. faithful_overall cfg (deterministic_core tsk p gold cfg) = 0"
    by (simp add: faithful_overall_def)
  show ?thesis using core overall by (simp add: w2_row_of_def Let_def)
qed

theorem no_required_anchors_never_faithful_witness:
  "get_or (g_required_anchors golden_T1) [] = []
   \<and> w2_faithful_overall (w2_row_of sut_canary default_config goldens_T1 task_T1) = 0
   \<and> w2_anchor_coverage (w2_row_of sut_canary default_config goldens_T1 task_T1) = 0
   \<and> w2_anchor_faithful_rate (w2_row_of sut_canary default_config goldens_T1 task_T1) = 0
   \<and> faithful (core_faith (deterministic_core task_T1 prediction_T1 golden_T1 default_config)) = 1"
  using no_required_anchors_never_faithful [of golden_T1 task_T1 prediction_T1 default_config
      goldens_T1 sut_canary]
  by (simp add: golden_T1_def empty_golden_def get_or_def lookup_golden_def goldens_T1_def
      task_T1_def deterministic_core_def evaluate_faithfulness_def prediction_T1_def
      empty_prediction_def citation_a_def c_paths_def Let_def)

subsection \<open>Variant generation\<close>

lemma kinds_loop_all2:
  assumes "list_all2 P ts gs"
    and "\<And>vid kind f. P (generate_variant_task gold vid kind f) (generate_variant_golden gold vid kind)"
  shows "list_all2 P (fst (snd (kinds_loop limit gold kinds (n, ts, gs))))
           (snd (snd (kinds_loop limit gold kinds (n, ts, gs))))"
  using assms(1)
proof (induction kinds arbitrary: n ts gs)
  case Nil
  then show ?case by simp
next
  case (Cons kind kinds)
  show ?case
  proof (cases "int n \<ge> limit")
    case True
    with Cons.prems show ?thesis by simp
  next
    case False
    show ?thesis
    proof (cases "methods kind")
      case None
      with False Cons show ?thesis by simp
    next
      case (Some f)
      let ?t = "generate_variant_task gold (variant_id_of n) kind f"
      let ?g = "generate_variant_golden gold (variant_id_of n) kind"
      have "list_all2 P (ts @ [?t]) (gs @ [?g])"
        using Cons.prems assms(2) by (simp add: list_all2_appendI)
      then have "list_all2 P (fst (snd (kinds_loop limit gold kinds (n + 1, ts @ [?t], gs @ [?g]))))
           (snd (snd (kinds_loop limit gold kinds (n + 1, ts @ [?t], gs @ [?g]))))"
        by (rule Cons.IH)
      with False Some show ?thesis by (simp add: Let_def)
    qed
  qed
qed

lemma goldens_loop_all2:
  assumes "list_all2 P ts gs"
    and "\<And>gold vid kind f. gold \<in> set goldens \<Longrightarrow>
           P (generate_variant_task gold vid kind f) (generate_variant_golden gold vid kind)"
  shows "list_all2 P (fst (snd (goldens_loop limit kinds goldens (n, ts, gs))))
           (snd (snd (goldens_loop limit kinds goldens (n, ts, gs))))"
  using assms
proof (induction goldens arbitrary: n ts gs)
  case Nil
  then show ?case by simp
next
  case (Cons gold goldens)
  show ?case
  proof (cases "int n \<ge> limit")
    case True
    with Cons.prems show ?thesis by simp
  next
    case False
    obtain n' ts' gs' where k: "kinds_loop limit gold kinds (n, ts, gs) = (n', ts', gs')"
      by (cases "kinds_loop limit gold kinds (n, ts, gs)") auto
    have "list_all2 P (fst (snd (kinds_loop limit gold kinds (n, ts, gs))))
           (snd (snd (kinds_loop limit gold kinds (n, ts, gs))))"
      using Cons.prems by (intro kinds_loop_all2) auto
    with k have "list_all2 P ts' gs'" by simp
    then have "list_all2 P (fst (snd (goldens_loop limit kinds goldens (n', ts', gs'))))
           (snd (snd (goldens_loop limit kinds goldens (n', ts', gs'))))"
      using Cons.prems(2) by (intro Cons.IH) auto
    with False k show ?thesis by simp
  qed
qed

lemma generate_variants_all2:
  assumes "\<And>gold vid kind f. gold \<in> set goldens \<Longrightarrow>
           P (generate_variant_task gold vid kind f) (generate_variant_golden gold vid kind)"
  shows "list_all2 P (fst (generate_variants goldens limit kinds))
           (snd (generate_variants goldens limit kinds))"
proof (cases "goldens = []")
  case True
  then show ?thesis by (simp add: generate_variants_def)
next
  case False
  have "list_all2 P (fst (snd (goldens_loop limit kinds goldens (0, [], []))))
           (snd (snd (goldens_loop limit kinds goldens (0, [], []))))"
    using assms by (intro goldens_loop_all2) auto
  with False show ?thesis by (simp add: generate_variants_def)
qed

text \<open>
  Claim C9. The variant golden has the paths, line ranges and quotes of its source golden
  (as read with their default, the empty list, and literally when the source has the key),
  and the acceptance criteria of the variant task are the paths and line ranges (and the
  checklist) of the source golden. Every pair of a task and a golden that
  \<^verbatim>\<open>generate_variants\<close> produces comes from one of the source goldens in this way.
\<close>

theorem variant_truth_unchanged:
  "get_or (g_paths (generate_variant_golden src vid kind)) [] = get_or (g_paths src) []
   \<and> get_or (g_line_ranges (generate_variant_golden src vid kind)) [] = get_or (g_line_ranges src) []
   \<and> get_or (g_quotes (generate_variant_golden src vid kind)) [] = get_or (g_quotes src) []
   \<and> (\<forall>ps. g_paths src = Some ps \<longrightarrow> g_paths (generate_variant_golden src vid kind) = Some ps)
   \<and> (\<forall>rs. g_line_ranges src = Some rs \<longrightarrow>
         g_line_ranges (generate_variant_golden src vid kind) = Some rs)
   \<and> (\<forall>qs. g_quotes src = Some qs \<longrightarrow> g_quotes (generate_variant_golden src vid kind) = Some qs)
   \<and> t_acceptance_criteria (generate_variant_task src vid kind method_func) =
        Some \<lparr>acc_paths = get_or (g_paths src) [],
              acc_line_ranges = get_or (g_line_ranges src) [],
              acc_checklist = get_or (g_checklist src) []\<rparr>
   \<and> list_all2
        (\<lambda>vt vg. \<exists>s \<in> set goldens.
            get_or (g_paths vg) [] = get_or (g_paths s) []
          \<and> get_or (g_line_ranges vg) [] = get_or (g_line_ranges s) []
          \<and> get_or (g_quotes vg) [] = get_or (g_quotes s) []
          \<and> t_acceptance_criteria vt =
              Some \<lparr>acc_paths = get_or (g_paths s) [],
                    acc_line_ranges = get_or (g_line_ranges s) [],
                    acc_checklist = get_or (g_checklist s) []\<rparr>
          \<and> t_id vt = g_task_id vg)
        (fst (generate_variants goldens limit kinds))
        (snd (generate_variants goldens limit kinds))"
proof -
  have one: "\<And>s v k. get_or (g_paths (generate_variant_golden s v k)) [] = get_or (g_paths s) []
     \<and> get_or (g_line_ranges (generate_variant_golden s v k)) [] = get_or (g_line_ranges s) []
     \<and> get_or (g_quotes (generate_variant_golden s v k)) [] = get_or (g_quotes s) []
     \<and> g_task_id (generate_variant_golden s v k) = Some v"
    by (simp add: generate_variant_golden_def get_or_simps)
  have acc: "\<And>s v k f. t_acceptance_criteria (generate_variant_task s v k f) =
        Some \<lparr>acc_paths = get_or (g_paths s) [],
              acc_line_ranges = get_or (g_line_ranges s) [],
              acc_checklist = get_or (g_checklist s) []\<rparr>
     \<and> t_id (generate_variant_task s v k f) = Some v"
    by (simp add: generate_variant_task_def Let_def)
  have same: "(\<forall>ps. g_paths src = Some ps \<longrightarrow> g_paths (generate_variant_golden src vid kind) = Some ps)
   \<and> (\<forall>rs. g_line_ranges src = Some rs \<longrightarrow>
         g_line_ranges (generate_variant_golden src vid kind) = Some rs)
   \<and> (\<forall>qs. g_quotes src = Some qs \<longrightarrow> g_quotes (generate_variant_golden src vid kind) = Some qs)"
    by (simp add: generate_variant_golden_def get_or_simps)
  have all: "list_all2
        (\<lambda>vt vg. \<exists>s \<in> set goldens.
            get_or (g_paths vg) [] = get_or (g_paths s) []
          \<and> get_or (g_line_ranges vg) [] = get_or (g_line_ranges s) []
          \<and> get_or (g_quotes vg) [] = get_or (g_quotes s) []
          \<and> t_acceptance_criteria vt =
              Some \<lparr>acc_paths = get_or (g_paths s) [],
                    acc_line_ranges = get_or (g_line_ranges s) [],
                    acc_checklist = get_or (g_checklist s) []\<rparr>
          \<and> t_id vt = g_task_id vg)
        (fst (generate_variants goldens limit kinds))
        (snd (generate_variants goldens limit kinds))"
  proof (rule generate_variants_all2)
    fix gold vid kind f
    assume "gold \<in> set goldens"
    then show "\<exists>s \<in> set goldens.
            get_or (g_paths (generate_variant_golden gold vid kind)) [] = get_or (g_paths s) []
          \<and> get_or (g_line_ranges (generate_variant_golden gold vid kind)) [] = get_or (g_line_ranges s) []
          \<and> get_or (g_quotes (generate_variant_golden gold vid kind)) [] = get_or (g_quotes s) []
          \<and> t_acceptance_criteria (generate_variant_task gold vid kind f) =
              Some \<lparr>acc_paths = get_or (g_paths s) [],
                    acc_line_ranges = get_or (g_line_ranges s) [],
                    acc_checklist = get_or (g_checklist s) []\<rparr>
          \<and> t_id (generate_variant_task gold vid kind f) = g_task_id (generate_variant_golden gold vid kind)"
      using one [of gold vid kind] acc [of gold vid kind f] by (intro bexI [of _ gold]) simp_all
  qed
  from one [of src vid kind] acc [of src vid kind method_func] same all show ?thesis by simp
qed

theorem variant_truth_unchanged_witness:
  "map g_task_id (snd (generate_variants [golden_src] 2 [''case'', ''bogus'', ''test'', ''vendor'']))
     = [Some ''W1-VAR-001'', Some ''W1-VAR-002'']
   \<and> map g_paths (snd (generate_variants [golden_src] 2 [''case'', ''bogus'', ''test'', ''vendor'']))
     = [Some [''a.c''], Some [''a.c'']]
   \<and> map g_line_ranges (snd (generate_variants [golden_src] 2 [''case'', ''bogus'', ''test'', ''vendor'']))
     = [Some [(10, 20)], Some [(10, 20)]]
   \<and> map t_acceptance_criteria
       (fst (generate_variants [golden_src] 2 [''case'', ''bogus'', ''test'', ''vendor'']))
     = [Some \<lparr>acc_paths = [''a.c''], acc_line_ranges = [(10, 20)], acc_checklist = []\<rparr>,
        Some \<lparr>acc_paths = [''a.c''], acc_line_ranges = [(10, 20)], acc_checklist = []\<rparr>]
   \<and> map t_inputs (fst (generate_variants [golden_src] 2 [''case'', ''bogus'', ''test'', ''vendor'']))
     = [Some \<lparr>inp_symbol = Some ''GDM_DISPLAY''\<rparr>, Some \<lparr>inp_symbol = Some ''tests/gdm_display''\<rparr>]
   \<and> g_quotes (generate_variant_golden golden_src ''W1-VAR-001'' ''case'') = Some [''foo'']"
proof -
  have ids: "map g_task_id (snd (generate_variants [golden_src] 2 [''case'', ''bogus'', ''test'', ''vendor'']))
     = [Some ''W1-VAR-001'', Some ''W1-VAR-002'']"
    by code_simp
  have paths: "map g_paths (snd (generate_variants [golden_src] 2 [''case'', ''bogus'', ''test'', ''vendor'']))
     = [Some [''a.c''], Some [''a.c'']]"
    by code_simp
  have ranges: "map g_line_ranges (snd (generate_variants [golden_src] 2 [''case'', ''bogus'', ''test'', ''vendor'']))
     = [Some [(10, 20)], Some [(10, 20)]]"
    by code_simp
  have acc: "map t_acceptance_criteria
       (fst (generate_variants [golden_src] 2 [''case'', ''bogus'', ''test'', ''vendor'']))
     = [Some \<lparr>acc_paths = [''a.c''], acc_line_ranges = [(10, 20)], acc_checklist = []\<rparr>,
        Some \<lparr>acc_paths = [''a.c''], acc_line_ranges = [(10, 20)], acc_checklist = []\<rparr>]"
    by code_simp
  have inputs: "map t_inputs (fst (generate_variants [golden_src] 2 [''case'', ''bogus'', ''test'', ''vendor'']))
     = [Some \<lparr>inp_symbol = Some ''GDM_DISPLAY''\<rparr>, Some \<lparr>inp_symbol = Some ''tests/gdm_display''\<rparr>]"
    by code_simp
  have src: "g_quotes golden_src = Some [''foo'']"
    by (simp add: golden_src_def golden_T1_def empty_golden_def)
  from variant_truth_unchanged [of golden_src "''W1-VAR-001''" "''case''" case_toggle
      "[golden_src]" 2 "[''case'', ''bogus'', ''test'', ''vendor'']"] src
  have "g_quotes (generate_variant_golden golden_src ''W1-VAR-001'' ''case'') = Some [''foo'']"
    by blast
  with ids paths ranges acc inputs show ?thesis by simp
qed

end
